theory Spec2Isabelle
  imports Complex_Main
begin

section \<open>Values\<close>

text \<open>
  A calendar day is its ordinal number. Python and numpy floats are idealised: a finite
  float is a real number (rounding and the sign of zero are not modelled), and the three
  special values are kept, since the code relies on them: \<open>diff\<close> and \<open>pct_change\<close>
  start with NaN, \<open>dropna\<close> removes NaN rows, comparisons with NaN are false and numpy
  division by zero returns an infinity or NaN instead of raising.
\<close>

type_synonym date = int

datatype npfloat = NaN | PInf | NInf | Fin real

datatype pyerror =
    ValueError string
  | NameError string
  | TypeError string
  | IndexError string
  | KeyError string
  | ZeroDivisionError
  | OverflowError

fun np_neg :: "npfloat \<Rightarrow> npfloat" where
  "np_neg NaN = NaN"
| "np_neg PInf = NInf"
| "np_neg NInf = PInf"
| "np_neg (Fin a) = Fin (- a)"

fun np_add :: "npfloat \<Rightarrow> npfloat \<Rightarrow> npfloat" where
  "np_add (Fin a) (Fin b) = Fin (a + b)"
| "np_add NaN _ = NaN"
| "np_add _ NaN = NaN"
| "np_add PInf NInf = NaN"
| "np_add NInf PInf = NaN"
| "np_add PInf _ = PInf"
| "np_add NInf _ = NInf"
| "np_add (Fin a) y = y"

definition np_sub :: "npfloat \<Rightarrow> npfloat \<Rightarrow> npfloat" where
  "np_sub a b = np_add a (np_neg b)"

fun np_mul :: "npfloat \<Rightarrow> npfloat \<Rightarrow> npfloat" where
  "np_mul (Fin a) (Fin b) = Fin (a * b)"
| "np_mul NaN _ = NaN"
| "np_mul _ NaN = NaN"
| "np_mul (Fin a) y = (if a = 0 then NaN else if 0 < a then y else np_neg y)"
| "np_mul x (Fin b) = (if b = 0 then NaN else if 0 < b then x else np_neg x)"
| "np_mul x y = (if x = y then PInf else NInf)"

text \<open>numpy's true division: a zero divisor gives an infinity or NaN, never an exception.\<close>

fun np_div :: "npfloat \<Rightarrow> npfloat \<Rightarrow> npfloat" where
  "np_div (Fin a) (Fin b) =
     (if b = 0 then (if a = 0 then NaN else if 0 < a then PInf else NInf) else Fin (a / b))"
| "np_div NaN _ = NaN"
| "np_div _ NaN = NaN"
| "np_div (Fin a) y = Fin 0"
| "np_div x (Fin b) = (if 0 \<le> b then x else np_neg x)"
| "np_div x y = NaN"

text \<open>\<open>a > b\<close> on floats: false whenever an operand is NaN.\<close>

fun np_gt :: "npfloat \<Rightarrow> npfloat \<Rightarrow> bool" where
  "np_gt (Fin a) (Fin b) = (b < a)"
| "np_gt NaN _ = False"
| "np_gt _ NaN = False"
| "np_gt PInf y = (y \<noteq> PInf)"
| "np_gt x NInf = (x \<noteq> NInf)"
| "np_gt x y = False"

fun np_abs :: "npfloat \<Rightarrow> npfloat" where
  "np_abs NaN = NaN"
| "np_abs (Fin a) = Fin \<bar>a\<bar>"
| "np_abs x = PInf"

fun np_sqrt :: "npfloat \<Rightarrow> npfloat" where
  "np_sqrt (Fin a) = (if a < 0 then NaN else Fin (sqrt a))"
| "np_sqrt PInf = PInf"
| "np_sqrt x = NaN"

section \<open>Series reductions (pandas, numpy)\<close>

text \<open>
  Reductions over a column without missing values. \<open>sum\<close> of an empty column is 0;
  \<open>mean\<close>, \<open>min\<close> and \<open>max\<close> of an empty column are NaN; the sample variance and standard
  deviation (ddof = 1) of fewer than two values are NaN. \<open>series_var\<close> and \<open>series_std\<close>
  are the exact values. The floating-point result of pandas can differ from them in the
  last bits, and on a constant column it can be a tiny positive number where the exact
  value is 0; where the code compares a standard deviation with 0, the standard deviation
  is therefore a parameter of the function.
\<close>

definition series_sum :: "real list \<Rightarrow> real" where
  "series_sum xs = sum_list xs"

definition series_mean :: "real list \<Rightarrow> npfloat" where
  "series_mean xs = (if xs = [] then NaN else Fin (sum_list xs / real (length xs)))"

definition series_var :: "real list \<Rightarrow> npfloat" where
  "series_var xs =
     (if length xs < 2 then NaN
      else let m = sum_list xs / real (length xs)
           in Fin (sum_list (map (\<lambda>x. (x - m) * (x - m)) xs) / (real (length xs) - 1)))"

definition series_std :: "real list \<Rightarrow> npfloat" where
  "series_std xs = np_sqrt (series_var xs)"

definition series_min :: "real list \<Rightarrow> npfloat" where
  "series_min xs = (case xs of [] \<Rightarrow> NaN | x # ys \<Rightarrow> Fin (fold min ys x))"

definition series_max :: "real list \<Rightarrow> npfloat" where
  "series_max xs = (case xs of [] \<Rightarrow> NaN | x # ys \<Rightarrow> Fin (fold max ys x))"

definition count_positive :: "real list \<Rightarrow> nat" where
  "count_positive xs = length (filter (\<lambda>x. 0 < x) xs)"

text \<open>
  \<open>np.percentile(a, q)\<close> with the default linear interpolation between the two closest
  ranks. On an empty array numpy raises while it looks up the last element.
\<close>

definition np_percentile :: "real list \<Rightarrow> real \<Rightarrow> pyerror + real" where
  "np_percentile xs q =
     (if xs = [] then Inl (IndexError ''index -1 is out of bounds for axis 0 with size 0'')
      else let s = sort xs;
               n = length xs;
               v = (real n - 1) * q / 100;
               lo = nat \<lfloor>v\<rfloor>;
               hi = min (lo + 1) (n - 1);
               g = v - real lo
           in Inr (s ! lo + (s ! hi - s ! lo) * g))"

text \<open>\<open>series.expanding().max()\<close>: the running maximum.\<close>

fun expanding_max_from :: "real \<Rightarrow> real list \<Rightarrow> real list" where
  "expanding_max_from m [] = []"
| "expanding_max_from m (x # xs) = max m x # expanding_max_from (max m x) xs"

definition expanding_max :: "real list \<Rightarrow> real list" where
  "expanding_max xs = (case xs of [] \<Rightarrow> [] | x # ys \<Rightarrow> x # expanding_max_from x ys)"

text \<open>
  \<open>series.diff()\<close>: the first entry is NaN (\<open>None\<close>), every later one the difference to
  its predecessor. \<open>series.cumsum()\<close> skips NaN: a NaN entry stays NaN and adds nothing to
  the running total.
\<close>

fun pd_diff :: "real list \<Rightarrow> real option list" where
  "pd_diff [] = []"
| "pd_diff (x # xs) = None # map (\<lambda>(prev, cur). Some (cur - prev)) (zip (x # xs) xs)"

fun cumsum_from :: "real \<Rightarrow> real option list \<Rightarrow> real option list" where
  "cumsum_from acc [] = []"
| "cumsum_from acc (None # xs) = None # cumsum_from acc xs"
| "cumsum_from acc (Some x # xs) = Some (acc + x) # cumsum_from (acc + x) xs"

definition pd_cumsum :: "real option list \<Rightarrow> real option list" where
  "pd_cumsum xs = cumsum_from 0 xs"

text \<open>
  A float that is finite or NaN is a \<open>real option\<close>, \<open>None\<close> for NaN, as the entries of a
  column are. Product and negation of two such floats, scalar times column and column
  plus column; NaN propagates.
\<close>

definition float_mul :: "real option \<Rightarrow> real option \<Rightarrow> real option" where
  "float_mul a b =
     (case a of None \<Rightarrow> None | Some x \<Rightarrow> (case b of None \<Rightarrow> None | Some y \<Rightarrow> Some (x * y)))"

definition float_neg :: "real option \<Rightarrow> real option" where
  "float_neg a = map_option uminus a"

definition to_npfloat :: "real option \<Rightarrow> npfloat" where
  "to_npfloat a = (case a of None \<Rightarrow> NaN | Some x \<Rightarrow> Fin x)"

definition col_scale :: "real option \<Rightarrow> real option list \<Rightarrow> real option list" where
  "col_scale c xs = map (float_mul c) xs"

definition col_add :: "real option list \<Rightarrow> real option list \<Rightarrow> real option list" where
  "col_add xs ys =
     map (\<lambda>(x, y). case x of None \<Rightarrow> None
                   | Some a \<Rightarrow> (case y of None \<Rightarrow> None | Some b \<Rightarrow> Some (a + b)))
         (zip xs ys)"

section \<open>Backtest engine (backtest_engine.py)\<close>

datatype HedgeDirection = LONG_HEDGE | SHORT_HEDGE

text \<open>One row of the aligned data: a day with its spot and futures price.\<close>

record price_row =
  date :: date
  spot_price :: real
  future_price :: real

text \<open>
  A row of the working frame of \<open>run_backtest\<close> before \<open>dropna\<close>: the computed columns
  may hold NaN (\<open>None\<close>). \<open>raw_label\<close> is the row's index label.
\<close>

record raw_row = price_row +
  raw_label :: int
  raw_spot_price_change :: "real option"
  raw_future_price_change :: "real option"
  raw_spot_pnl :: "real option"
  raw_future_pnl :: "real option"
  raw_total_pnl :: "real option"
  raw_unhedged_pnl :: "real option"
  raw_total_pnl_cumulative :: "real option"
  raw_unhedged_pnl_cumulative :: "real option"
  raw_spot_pnl_cumulative :: "real option"
  raw_future_pnl_cumulative :: "real option"

text \<open>A row of the backtest data: every column holds a number. \<open>label\<close> is the index label.\<close>

record bt_row = price_row +
  label :: int
  spot_price_change :: real
  future_price_change :: real
  spot_pnl :: real
  future_pnl :: real
  total_pnl :: real
  unhedged_pnl :: real
  total_pnl_cumulative :: real
  unhedged_pnl_cumulative :: real
  spot_pnl_cumulative :: real
  future_pnl_cumulative :: real

record perf_metrics =
  total_days :: nat
  total_hedged_pnl :: real
  total_unhedged_pnl :: real
  total_spot_pnl :: real
  total_future_pnl :: real
  avg_daily_hedged_pnl :: npfloat
  avg_daily_unhedged_pnl :: npfloat
  profitable_days_hedged :: nat
  profitable_days_unhedged :: nat
  profitable_days_ratio_hedged :: npfloat
  profitable_days_ratio_unhedged :: npfloat
  hedged_volatility :: npfloat
  unhedged_volatility :: npfloat
  max_drawdown_hedged :: npfloat
  max_drawdown_unhedged :: npfloat
  sharpe_ratio_hedged :: npfloat
  sharpe_ratio_unhedged :: npfloat
  variance_reduction_rate :: npfloat
  volatility_reduction_rate :: npfloat
  hedging_effectiveness :: npfloat
  estimated_hedge_cost :: npfloat
  max_daily_gain_hedged :: npfloat
  max_daily_loss_hedged :: npfloat
  max_daily_gain_unhedged :: npfloat
  max_daily_loss_unhedged :: npfloat
  var_95_hedged :: real
  var_95_unhedged :: real
  start_date :: date
  end_date :: date

record hedge_parameters =
  hedge_ratio :: "real option"
  spot_quantity :: "real option"
  future_quantity :: "real option"
  hedge_direction :: HedgeDirection
  future_contract_size :: real

record backtest_result =
  data :: "bt_row list"
  performance_metrics :: perf_metrics
  hedge_parameters :: hedge_parameters

text \<open>The engine's only attribute: the result of the last backtest.\<close>

record BacktestEngine =
  backtest_results :: "backtest_result option"

text \<open>
  Lines 54 to 84 of \<open>run_backtest\<close>: the price changes, the daily P&L columns for the
  hedge direction and their cumulative sums, column by column, on the rows of the
  aligned data (whose index is 0, 1, 2, ...).
\<close>

definition pnl_frame ::
  "price_row list \<Rightarrow> real option \<Rightarrow> real option \<Rightarrow> HedgeDirection \<Rightarrow> raw_row list" where
  "pnl_frame aligned_data spot_qty future_qty direction =
     (let spc = pd_diff (map spot_price aligned_data);
          fpc = pd_diff (map future_price aligned_data);
          spnl = (case direction of
                    SHORT_HEDGE \<Rightarrow> col_scale spot_qty spc
                  | LONG_HEDGE \<Rightarrow> col_scale (float_neg spot_qty) spc);
          fpnl = (case direction of
                    SHORT_HEDGE \<Rightarrow> col_scale (float_neg future_qty) fpc
                  | LONG_HEDGE \<Rightarrow> col_scale future_qty fpc);
          tpnl = col_add spnl fpnl;
          upnl = (if direction = SHORT_HEDGE then col_scale spot_qty spc
                  else col_scale (float_neg spot_qty) spc);
          tcum = pd_cumsum tpnl;
          ucum = pd_cumsum upnl;
          scum = pd_cumsum spnl;
          fcum = pd_cumsum fpnl
      in map (\<lambda>i. \<lparr> date = date (aligned_data ! i),
                    spot_price = spot_price (aligned_data ! i),
                    future_price = future_price (aligned_data ! i),
                    raw_label = int i,
                    raw_spot_price_change = spc ! i,
                    raw_future_price_change = fpc ! i,
                    raw_spot_pnl = spnl ! i,
                    raw_future_pnl = fpnl ! i,
                    raw_total_pnl = tpnl ! i,
                    raw_unhedged_pnl = upnl ! i,
                    raw_total_pnl_cumulative = tcum ! i,
                    raw_unhedged_pnl_cumulative = ucum ! i,
                    raw_spot_pnl_cumulative = scum ! i,
                    raw_future_pnl_cumulative = fcum ! i \<rparr>)
             [0 ..< length aligned_data])"

text \<open>\<open>dropna\<close>: a row stays when none of its columns is NaN; it keeps its index label.\<close>

definition complete_row :: "raw_row \<Rightarrow> bt_row option" where
  "complete_row r =
     (if None \<in> set [raw_spot_price_change r, raw_future_price_change r, raw_spot_pnl r,
                      raw_future_pnl r, raw_total_pnl r, raw_unhedged_pnl r,
                      raw_total_pnl_cumulative r, raw_unhedged_pnl_cumulative r,
                      raw_spot_pnl_cumulative r, raw_future_pnl_cumulative r]
      then None
      else Some \<lparr> date = date r, spot_price = spot_price r, future_price = future_price r,
                  label = raw_label r,
                  spot_price_change = the (raw_spot_price_change r),
                  future_price_change = the (raw_future_price_change r),
                  spot_pnl = the (raw_spot_pnl r),
                  future_pnl = the (raw_future_pnl r),
                  total_pnl = the (raw_total_pnl r),
                  unhedged_pnl = the (raw_unhedged_pnl r),
                  total_pnl_cumulative = the (raw_total_pnl_cumulative r),
                  unhedged_pnl_cumulative = the (raw_unhedged_pnl_cumulative r),
                  spot_pnl_cumulative = the (raw_spot_pnl_cumulative r),
                  future_pnl_cumulative = the (raw_future_pnl_cumulative r) \<rparr>)"

definition pd_dropna :: "raw_row list \<Rightarrow> bt_row list" where
  "pd_dropna rs = List.map_filter complete_row rs"

text \<open>
  \<open>_calculate_max_drawdown\<close> of the engine: the minimum of the cumulative series minus
  its running peak; NaN on an empty series.
\<close>

definition calculate_max_drawdown :: "real list \<Rightarrow> npfloat" where
  "calculate_max_drawdown cumulative_series =
     (let peak = expanding_max cumulative_series;
          drawdown = map (\<lambda>(c, p). c - p) (zip cumulative_series peak)
      in series_min drawdown)"

text \<open>
  Lines 156 to 165, once for the hedged and once for the unhedged series: the Sharpe
  ratio is the mean over the volatility when the volatility is greater than 0, else 0.
  The result is the value assigned, together with the divisors of the divisions the
  branch taken executes.
\<close>

definition sharpe_ratio :: "npfloat \<Rightarrow> npfloat \<Rightarrow> npfloat \<times> npfloat list" where
  "sharpe_ratio avg volatility =
     (if np_gt volatility (Fin 0) then (np_div avg volatility, [volatility]) else (Fin 0, []))"

text \<open>
  \<open>series.min()\<close> and \<open>series.max()\<close> of a date column are NaT (\<open>None\<close>) on an empty
  column, and \<open>NaT.strftime\<close> raises. A formatted date is represented by the day.
\<close>

definition date_min :: "date list \<Rightarrow> date option" where
  "date_min ds = (case ds of [] \<Rightarrow> None | d # es \<Rightarrow> Some (fold min es d))"

definition date_max :: "date list \<Rightarrow> date option" where
  "date_max ds = (case ds of [] \<Rightarrow> None | d # es \<Rightarrow> Some (fold max es d))"

definition strftime :: "date option \<Rightarrow> pyerror + date" where
  "strftime t = (case t of None \<Rightarrow> Inl (ValueError ''NaTType does not support strftime'')
                 | Some d \<Rightarrow> Inr d)"

text \<open>
  \<open>_calculate_performance_metrics\<close>. The statements that can raise are, in this order,
  the two percentiles and the two date formats; everything before them is numpy
  arithmetic, which returns NaN or an infinity where it divides by zero.

  The standard deviation decides the guard of the Sharpe ratio, and pandas computes it in
  floating point: on a constant series such as 0.1, 0.1, 0.1 its result is a tiny positive
  number, not 0. It is therefore the parameter \<open>std\<close>, any function from a column to a
  float, of which \<open>series_std\<close> is the exact one.
\<close>

definition calculate_performance_metrics ::
  "(real list \<Rightarrow> npfloat) \<Rightarrow> bt_row list \<Rightarrow> HedgeDirection \<Rightarrow> real option \<Rightarrow> real option
     \<Rightarrow> pyerror + perf_metrics" where
  "calculate_performance_metrics std rows direction spot_qty future_qty =
     (let hedged = map total_pnl rows;
          unhedged = map unhedged_pnl rows;
          n = length rows;
          avg_h = series_mean hedged;
          avg_u = series_mean unhedged;
          vol_h = std hedged;
          vol_u = std unhedged;
          variance_reduction =
            np_div (np_sub (series_var unhedged) (series_var hedged)) (series_var unhedged);
          volatility_reduction = np_div (np_sub vol_u vol_h) vol_u
      in case np_percentile hedged 5 of Inl e \<Rightarrow> Inl e | Inr var_h \<Rightarrow>
         (case np_percentile unhedged 5 of Inl e \<Rightarrow> Inl e | Inr var_u \<Rightarrow>
         (case strftime (date_min (map date rows)) of Inl e \<Rightarrow> Inl e | Inr d_first \<Rightarrow>
         (case strftime (date_max (map date rows)) of Inl e \<Rightarrow> Inl e | Inr d_last \<Rightarrow>
          Inr \<lparr> total_days = n,
                total_hedged_pnl = series_sum hedged,
                total_unhedged_pnl = series_sum unhedged,
                total_spot_pnl = series_sum (map spot_pnl rows),
                total_future_pnl = series_sum (map future_pnl rows),
                avg_daily_hedged_pnl = avg_h,
                avg_daily_unhedged_pnl = avg_u,
                profitable_days_hedged = count_positive hedged,
                profitable_days_unhedged = count_positive unhedged,
                profitable_days_ratio_hedged =
                  np_div (Fin (real (count_positive hedged))) (Fin (real n)),
                profitable_days_ratio_unhedged =
                  np_div (Fin (real (count_positive unhedged))) (Fin (real n)),
                hedged_volatility = vol_h,
                unhedged_volatility = vol_u,
                max_drawdown_hedged = calculate_max_drawdown (map total_pnl_cumulative rows),
                max_drawdown_unhedged =
                  calculate_max_drawdown (map unhedged_pnl_cumulative rows),
                sharpe_ratio_hedged = fst (sharpe_ratio avg_h vol_h),
                sharpe_ratio_unhedged = fst (sharpe_ratio avg_u vol_u),
                variance_reduction_rate = variance_reduction,
                volatility_reduction_rate = volatility_reduction,
                hedging_effectiveness = variance_reduction,
                estimated_hedge_cost =
                  np_mul (np_mul (np_abs (to_npfloat future_qty))
                                 (series_mean (map future_price rows)))
                         (Fin (1 / 1000)),
                max_daily_gain_hedged = series_max hedged,
                max_daily_loss_hedged = series_min hedged,
                max_daily_gain_unhedged = series_max unhedged,
                max_daily_loss_unhedged = series_min unhedged,
                var_95_hedged = var_h,
                var_95_unhedged = var_u,
                start_date = d_first,
                end_date = d_last \<rparr>))))"

text \<open>
  \<open>run_backtest\<close>: the error for empty input, the frame, \<open>dropna\<close>, the metrics, and
  the result stored in the engine. The hedge ratio and the spot quantity are floats that
  are finite or NaN: the estimator returns NaN when the futures price does not vary, and
  the application passes its ratio on as it is. An infinite ratio, which the estimator
  does not return, is not modelled. The prices and the contract size are finite.
\<close>

definition run_backtest ::
  "(real list \<Rightarrow> npfloat) \<Rightarrow> BacktestEngine \<Rightarrow> price_row list \<Rightarrow> real option \<Rightarrow> real option
     \<Rightarrow> HedgeDirection \<Rightarrow> real \<Rightarrow> pyerror + (backtest_result \<times> BacktestEngine)" where
  "run_backtest std self aligned_data ratio spot_qty direction contract_size =
     (if aligned_data = [] then Inl (ValueError ''data is empty, cannot run backtest'')
      else let future_qty = float_mul spot_qty ratio;
               rows = pd_dropna (pnl_frame aligned_data spot_qty future_qty direction)
           in case calculate_performance_metrics std rows direction spot_qty future_qty of
                Inl e \<Rightarrow> Inl e
              | Inr metrics \<Rightarrow>
                  (let result = \<lparr> data = rows,
                                   performance_metrics = metrics,
                                   hedge_parameters =
                                     \<lparr> hedge_ratio = ratio,
                                       spot_quantity = spot_qty,
                                       future_quantity = future_qty,
                                       hedge_direction = direction,
                                       future_contract_size = contract_size \<rparr> \<rparr>
                   in Inr (result, self\<lparr> backtest_results := Some result \<rparr>)))"

section \<open>Reference notions for the backtest\<close>

text \<open>
  The day-over-day changes of a price list, and the running sum of a list: entry \<open>k\<close> is
  the sum of the entries 0 to \<open>k\<close>.
\<close>

definition deltas :: "real list \<Rightarrow> real list" where
  "deltas xs = map (\<lambda>(prev, cur). cur - prev) (zip xs (tl xs))"

definition running_sum :: "real list \<Rightarrow> real list" where
  "running_sum xs = map (\<lambda>k. sum_list (take (Suc k) xs)) [0 ..< length xs]"

text \<open>
  The sign of the spot leg and of the futures leg for a hedge direction, and the backtest
  rows written row by row: day \<open>k + 1\<close> of the aligned data with its changes, its daily
  P&L and the running sums. \<open>pd_dropna\<close> of \<open>pnl_frame\<close> is proved equal to it.
\<close>

definition dir_spot :: "HedgeDirection \<Rightarrow> real \<Rightarrow> real" where
  "dir_spot d q = (case d of SHORT_HEDGE \<Rightarrow> q | LONG_HEDGE \<Rightarrow> - q)"

definition dir_future :: "HedgeDirection \<Rightarrow> real \<Rightarrow> real" where
  "dir_future d fq = (case d of SHORT_HEDGE \<Rightarrow> - fq | LONG_HEDGE \<Rightarrow> fq)"

definition day_rows :: "price_row list \<Rightarrow> real \<Rightarrow> real \<Rightarrow> HedgeDirection \<Rightarrow> bt_row list" where
  "day_rows A q fq d =
     (let ds = deltas (map spot_price A);
          df = deltas (map future_price A);
          sp = map (\<lambda>x. dir_spot d q * x) ds;
          fp = map (\<lambda>x. dir_future d fq * x) df;
          tp = map (\<lambda>(a, b). a + b) (zip sp fp)
      in map (\<lambda>k. \<lparr> date = date (A ! Suc k), spot_price = spot_price (A ! Suc k),
                    future_price = future_price (A ! Suc k),
                    label = int (Suc k),
                    spot_price_change = ds ! k,
                    future_price_change = df ! k,
                    spot_pnl = sp ! k,
                    future_pnl = fp ! k,
                    total_pnl = tp ! k,
                    unhedged_pnl = sp ! k,
                    total_pnl_cumulative = running_sum tp ! k,
                    unhedged_pnl_cumulative = running_sum sp ! k,
                    spot_pnl_cumulative = running_sum sp ! k,
                    future_pnl_cumulative = running_sum fp ! k \<rparr>)
             [0 ..< length A - 1])"

text \<open>A backtest row with constant daily P&L, for a record set without volatility.\<close>

definition flat_row :: "date \<Rightarrow> bt_row" where
  "flat_row d = \<lparr> date = d, spot_price = 100, future_price = 50, label = d,
      spot_price_change = 1, future_price_change = 1, spot_pnl = 2, future_pnl = -1,
      total_pnl = 1, unhedged_pnl = 2, total_pnl_cumulative = 1,
      unhedged_pnl_cumulative = 2, spot_pnl_cumulative = 2, future_pnl_cumulative = -1 \<rparr>"

text \<open>
  Four days on which the spot price moves and the futures price does not: the variance
  of the futures change is 0.
\<close>

definition flat_futures :: "price_row list" where
  "flat_futures =
     [\<lparr>date = 0, spot_price = 100, future_price = 50\<rparr>,
      \<lparr>date = 1, spot_price = 102, future_price = 50\<rparr>,
      \<lparr>date = 2, spot_price = 101, future_price = 50\<rparr>,
      \<lparr>date = 3, spot_price = 105, future_price = 50\<rparr>]"

section \<open>Hedge ratio calculator (hedge_ratio_calculator.py)\<close>

text \<open>
  The result of \<open>calculate_optimal_hedge_ratio\<close>. Of the regression it keeps the fit
  (intercept, slope, R squared); the inferential statistics (adjusted R squared, F statistic, p-values,
  standard error) and the constant \<open>calculation_method\<close> are left out. \<open>window_used\<close> is
  \<open>None\<close> for \<open>'all_data'\<close>.
\<close>

record ratio_result =
  optimal_hedge_ratio :: npfloat
  hedge_ratio_ols :: npfloat
  hedge_ratio_corr :: npfloat
  r_squared :: npfloat
  intercept :: npfloat
  slope :: npfloat
  correlation :: npfloat
  spot_volatility :: npfloat
  future_volatility :: npfloat
  data_points :: nat
  window_used :: "int option"

record HedgeRatioCalculator =
  last_calculation :: "ratio_result option"

text \<open>
  \<open>frame.tail(n)\<close>: the last \<open>n\<close> rows, and for a negative \<open>n\<close> all rows but the
  first \<open>-n\<close>.
\<close>

definition pd_tail :: "int \<Rightarrow> 'a list \<Rightarrow> 'a list" where
  "pd_tail n xs =
     (if n = 0 then []
      else if 0 < n then drop (length xs - nat n) xs
      else drop (nat (- n)) xs)"

text \<open>
  The two change columns after \<open>dropna\<close>: the rows on which both changes are numbers,
  as pairs (spot change, futures change).
\<close>

definition change_rows :: "price_row list \<Rightarrow> (real \<times> real) list" where
  "change_rows rows =
     List.map_filter
       (\<lambda>(s, f). case s of None \<Rightarrow> None
                 | Some a \<Rightarrow> (case f of None \<Rightarrow> None | Some b \<Rightarrow> Some (a, b)))
       (zip (pd_diff (map spot_price rows)) (pd_diff (map future_price rows)))"

text \<open>\<open>np.cov(x, y)\<close>: the entry for the pair of columns, with divisor \<open>n - 1\<close>.\<close>

definition np_cov :: "real list \<Rightarrow> real list \<Rightarrow> npfloat" where
  "np_cov xs ys =
     (let n = real (length xs);
          mx = sum_list xs / n;
          my = sum_list ys / n
      in np_div (Fin (sum_list (map (\<lambda>(x, y). (x - mx) * (y - my)) (zip xs ys))))
                (Fin (n - 1)))"

text \<open>
  \<open>np.corrcoef(x, y)[0, 1]\<close>: the covariance over both standard deviations, clipped to
  the interval from -1 to 1.
\<close>

definition np_clip :: "npfloat \<Rightarrow> npfloat \<Rightarrow> npfloat \<Rightarrow> npfloat" where
  "np_clip x lo hi = (if np_gt lo x then lo else if np_gt x hi then hi else x)"

definition np_corrcoef :: "real list \<Rightarrow> real list \<Rightarrow> npfloat" where
  "np_corrcoef xs ys =
     np_clip (np_div (np_div (np_cov xs ys) (np_sqrt (np_cov xs xs))) (np_sqrt (np_cov ys ys)))
             (Fin (- 1)) (Fin 1)"

text \<open>
  \<open>sm.OLS(y, sm.add_constant(x)).fit()\<close>, as the exact least-squares solution.
  \<open>add_constant\<close> skips the constant when \<open>x\<close> is itself a non-zero constant column
  (\<open>ols_has_constant\<close> is then false, and \<open>params\<close> has one entry only). With the
  constant, the fit of a non-constant \<open>x\<close> is the usual one; an all-zero \<open>x\<close> gets
  slope 0 and the mean as intercept (the minimum-norm solution). R squared is
  \<open>1 - ssr / centered_tss\<close>.
\<close>

definition ols_has_constant :: "real list \<Rightarrow> bool" where
  "ols_has_constant xs = (\<not> (list_all (\<lambda>x. x = hd xs) xs \<and> list_ex (\<lambda>x. x \<noteq> 0) xs))"

definition ols_params :: "real list \<Rightarrow> real list \<Rightarrow> real \<times> real" where
  "ols_params xs ys =
     (let n = real (length xs);
          mx = sum_list xs / n;
          my = sum_list ys / n;
          sxx = sum_list (map (\<lambda>x. (x - mx) * (x - mx)) xs);
          sxy = sum_list (map (\<lambda>(x, y). (x - mx) * (y - my)) (zip xs ys))
      in if sxx = 0 then (my, 0) else (my - sxy / sxx * mx, sxy / sxx))"

definition ols_rsquared :: "real list \<Rightarrow> real list \<Rightarrow> npfloat" where
  "ols_rsquared xs ys =
     (let (a, b) = ols_params xs ys;
          my = sum_list ys / real (length ys);
          ssr = sum_list (map (\<lambda>(x, y). (y - (a + b * x)) * (y - (a + b * x))) (zip xs ys));
          tss = sum_list (map (\<lambda>y. (y - my) * (y - my)) ys)
      in np_sub (Fin 1) (np_div (Fin ssr) (Fin tss)))"

text \<open>
  \<open>calculate_optimal_hedge_ratio\<close>. \<open>window_size\<close> is \<open>None\<close> or an integer; the window is
  used when it is non-zero and smaller than the number of rows. The regression is of the
  spot change on the futures change; \<open>model.params[1]\<close> raises when the constant was
  skipped.
\<close>

definition calculate_optimal_hedge_ratio ::
  "HedgeRatioCalculator \<Rightarrow> price_row list \<Rightarrow> int option
     \<Rightarrow> pyerror + (npfloat \<times> ratio_result \<times> HedgeRatioCalculator)" where
  "calculate_optimal_hedge_ratio self aligned_data window_size =
     (if aligned_data = [] then Inl (ValueError ''data is empty, cannot compute hedge ratio'')
      else let rows = (case window_size of
                         None \<Rightarrow> aligned_data
                       | Some w \<Rightarrow> if w \<noteq> 0 \<and> w < int (length aligned_data)
                                   then pd_tail w aligned_data else aligned_data);
               changes = change_rows rows;
               spot_change = map fst changes;
               future_change = map snd changes
           in if length changes < 2
              then Inl (ValueError ''not enough data to compute hedge ratio'')
              else let hedge_ratio_mv =
                         np_div (np_cov spot_change future_change)
                                (np_cov future_change future_change)
                   in if \<not> ols_has_constant future_change
                      then Inl (IndexError ''index 1 is out of bounds for axis 0 with size 1'')
                      else let (b0, b1) = ols_params future_change spot_change;
                               corr = np_corrcoef spot_change future_change;
                               spot_vol = series_std spot_change;
                               future_vol = series_std future_change;
                               result = \<lparr> optimal_hedge_ratio = hedge_ratio_mv,
                                          hedge_ratio_ols = Fin b1,
                                          hedge_ratio_corr =
                                            np_mul corr (np_div spot_vol future_vol),
                                          r_squared = ols_rsquared future_change spot_change,
                                          intercept = Fin b0,
                                          slope = Fin b1,
                                          correlation = corr,
                                          spot_volatility = spot_vol,
                                          future_volatility = future_vol,
                                          data_points = length changes,
                                          window_used =
                                            (case window_size of None \<Rightarrow> None
                                             | Some w \<Rightarrow> if w \<noteq> 0 then Some w else None) \<rparr>
                           in Inr (hedge_ratio_mv, result,
                                   self\<lparr> last_calculation := Some result \<rparr>))"

text \<open>
  \<open>calculate_hedge_effectiveness\<close>, for a finite hedge ratio: the variance of the spot
  change, the variance of the hedged change and their ratios.
\<close>

record effectiveness_result =
  hedge_effectiveness :: npfloat
  risk_reduction_rate :: npfloat
  unhedged_variance :: npfloat
  hedged_variance :: npfloat
  eff_unhedged_volatility :: npfloat
  eff_hedged_volatility :: npfloat
  variance_reduction :: npfloat

definition calculate_hedge_effectiveness ::
  "price_row list \<Rightarrow> real \<Rightarrow> pyerror + effectiveness_result" where
  "calculate_hedge_effectiveness aligned_data ratio =
     (if aligned_data = []
      then Inl (ValueError ''data is empty, cannot compute hedge effectiveness'')
      else let changes = change_rows aligned_data;
               spot_change = map fst changes;
               hedged_change = map (\<lambda>(s, f). s - ratio * f) changes
           in if length changes < 2
              then Inl (ValueError ''not enough data to compute hedge effectiveness'')
              else let uv = series_var spot_change;
                       hv = series_var hedged_change
                   in Inr \<lparr> hedge_effectiveness = np_sub (Fin 1) (np_div hv uv),
                            risk_reduction_rate = np_div (np_sub uv hv) uv,
                            unhedged_variance = uv,
                            hedged_variance = hv,
                            eff_unhedged_volatility = np_sqrt uv,
                            eff_hedged_volatility = np_sqrt hv,
                            variance_reduction = np_sub uv hv \<rparr>)"

text \<open>
  \<open>calculate_hedge_quantity\<close> does arithmetic on the numbers it is given, and the
  operation that runs depends on their kind. A number is a Python float or a numpy
  float64, which is what \<open>calculate_optimal_hedge_ratio\<close> returns; a Python int behaves
  here as the Python float of its value. When one operand is a numpy float64 the
  operation is numpy's and the result a numpy float64; otherwise it is Python's and the
  result a Python float.
\<close>

datatype pynum = PyFloat npfloat | NpFloat64 npfloat

fun float_value :: "pynum \<Rightarrow> npfloat" where
  "float_value (PyFloat x) = x"
| "float_value (NpFloat64 x) = x"

fun is_numpy :: "pynum \<Rightarrow> bool" where
  "is_numpy (PyFloat x) = False"
| "is_numpy (NpFloat64 x) = True"

text \<open>
  A product or quotient whose magnitude reaches \<open>2^1024 - 2^970\<close> is too large for a
  double and becomes an infinity, in Python and in numpy, without an exception.
\<close>

definition overflow_threshold :: real where
  "overflow_threshold = 2 ^ 1024 - 2 ^ 970"

definition to_double :: "npfloat \<Rightarrow> npfloat" where
  "to_double x =
     (case x of
        Fin a \<Rightarrow> if overflow_threshold \<le> a then PInf
                 else if a \<le> - overflow_threshold then NInf
                 else Fin a
      | _ \<Rightarrow> x)"

definition py_mul :: "pynum \<Rightarrow> pynum \<Rightarrow> pynum" where
  "py_mul a b =
     (let v = to_double (np_mul (float_value a) (float_value b))
      in if is_numpy a \<or> is_numpy b then NpFloat64 v else PyFloat v)"

text \<open>
  \<open>a / b\<close>: numpy's division returns an infinity or NaN on a zero divisor; Python's
  raises ZeroDivisionError on a zero divisor whatever the dividend.
\<close>

definition py_truediv :: "pynum \<Rightarrow> pynum \<Rightarrow> pyerror + pynum" where
  "py_truediv a b =
     (if is_numpy a \<or> is_numpy b
      then Inr (NpFloat64 (to_double (np_div (float_value a) (float_value b))))
      else if float_value b = Fin 0 then Inl ZeroDivisionError
      else Inr (PyFloat (to_double (np_div (float_value a) (float_value b)))))"

text \<open>
  \<open>round(x)\<close> rounds half to even and returns a Python int; it raises on NaN and on an
  infinity, for a Python float and for a numpy float64.
\<close>

definition round_half_even :: "real \<Rightarrow> int" where
  "round_half_even x =
     (let f = \<lfloor>x\<rfloor>; r = x - of_int f
      in if r < 1 / 2 then f else if 1 / 2 < r then f + 1 else if even f then f else f + 1)"

definition py_round :: "pynum \<Rightarrow> pyerror + int" where
  "py_round x =
     (case float_value x of
        NaN \<Rightarrow> Inl (ValueError ''cannot convert float NaN to integer'')
      | PInf \<Rightarrow> Inl OverflowError
      | NInf \<Rightarrow> Inl OverflowError
      | Fin a \<Rightarrow> Inr (round_half_even a))"

definition py_int :: "int \<Rightarrow> pynum" where
  "py_int n = PyFloat (Fin (of_int n))"

record quantity_result =
  qr_spot_quantity :: pynum
  qr_optimal_hedge_ratio :: pynum
  future_quantity_needed :: pynum
  qr_future_contract_size :: pynum
  contract_count :: pynum
  rounded_contract_count :: int
  actual_hedge_ratio :: pynum

text \<open>
  The entries of the result are evaluated in the order of the source: the rounded count
  before the actual hedge ratio.
\<close>

definition calculate_hedge_quantity ::
  "pynum \<Rightarrow> pynum \<Rightarrow> pynum \<Rightarrow> pyerror + quantity_result" where
  "calculate_hedge_quantity spot_qty ratio contract_size =
     (let future_qty = py_mul spot_qty ratio
      in case py_truediv future_qty contract_size of Inl e \<Rightarrow> Inl e | Inr count \<Rightarrow>
         (case py_round count of Inl e \<Rightarrow> Inl e | Inr rounded \<Rightarrow>
         (case py_truediv (py_mul (py_int rounded) contract_size) spot_qty of
            Inl e \<Rightarrow> Inl e
          | Inr actual \<Rightarrow>
              Inr \<lparr> qr_spot_quantity = spot_qty,
                    qr_optimal_hedge_ratio = ratio,
                    future_quantity_needed = future_qty,
                    qr_future_contract_size = contract_size,
                    contract_count = count,
                    rounded_contract_count = rounded,
                    actual_hedge_ratio = actual \<rparr>)))"

definition np_isfinite :: "npfloat \<Rightarrow> bool" where
  "np_isfinite x = (case x of Fin a \<Rightarrow> True | _ \<Rightarrow> False)"

text \<open>
  The spot series 100, 102, 101, 105, 103 on five days, with a futures series that starts at
  \<open>f0\<close> and changes by half the spot change each day.
\<close>

definition lockstep_series ::
  "date \<Rightarrow> date \<Rightarrow> date \<Rightarrow> date \<Rightarrow> date \<Rightarrow> real \<Rightarrow> price_row list" where
  "lockstep_series d0 d1 d2 d3 d4 f0 =
     [\<lparr>date = d0, spot_price = 100, future_price = f0\<rparr>,
      \<lparr>date = d1, spot_price = 102, future_price = f0 + 1\<rparr>,
      \<lparr>date = d2, spot_price = 101, future_price = f0 + 1 / 2\<rparr>,
      \<lparr>date = d3, spot_price = 105, future_price = f0 + 5 / 2\<rparr>,
      \<lparr>date = d4, spot_price = 103, future_price = f0 + 3 / 2\<rparr>]"

section \<open>Data alignment (data_processor.py)\<close>

text \<open>
  A data frame with a \<open>date\<close> column: the names of its other columns, and its rows in
  order, each a date with one value per column. The index after \<open>reset_index\<close> is the
  position in the list.
\<close>

record data_frame =
  df_columns :: "string list"
  df_rows :: "(date \<times> real list) list"

text \<open>
  \<open>pd.merge(left, right, on='date', how='inner')\<close>: one row for every pair of a left
  and a right row with the same date, in the order of the left rows. A column name that
  occurs on both sides gets the suffix \<open>_x\<close> on the left and \<open>_y\<close> on the right.
\<close>

definition pd_merge_inner :: "data_frame \<Rightarrow> data_frame \<Rightarrow> data_frame" where
  "pd_merge_inner left right =
     \<lparr> df_columns =
         map (\<lambda>c. if c \<in> set (df_columns right) then c @ ''_x'' else c) (df_columns left)
         @ map (\<lambda>c. if c \<in> set (df_columns left) then c @ ''_y'' else c) (df_columns right),
       df_rows =
         concat (map (\<lambda>(d, vs). map (\<lambda>(d', ws). (d, vs @ ws))
                                     (filter (\<lambda>(d', ws). d' = d) (df_rows right)))
                     (df_rows left)) \<rparr>"

text \<open>
  \<open>align_data\<close>: the inner join, the error when it is empty, then the rows sorted by
  date (rows of equal date are kept in their order here).
\<close>

definition align_data :: "data_frame \<Rightarrow> data_frame \<Rightarrow> pyerror + data_frame" where
  "align_data spot_df future_df =
     (let aligned_df = pd_merge_inner spot_df future_df
      in if df_rows aligned_df = []
         then Inl (ValueError ''spot and futures data share no date'')
         else Inr (aligned_df\<lparr> df_rows := sort_key fst (df_rows aligned_df) \<rparr>))"

text \<open>
  A valid aligned series as a frame: the columns \<open>spot_price\<close> and \<open>future_price\<close>, at
  least one row, one value per column in every row, dates strictly increasing. Its spot
  series and its futures series are the frames of one price column each.
\<close>

definition valid_aligned :: "data_frame \<Rightarrow> bool" where
  "valid_aligned A =
     (df_columns A = [''spot_price'', ''future_price''] \<and> df_rows A \<noteq> []
      \<and> list_all (\<lambda>(d, vs). length vs = 2) (df_rows A)
      \<and> sorted_wrt (<) (map fst (df_rows A)))"

definition spot_series :: "data_frame \<Rightarrow> data_frame" where
  "spot_series A = \<lparr> df_columns = [''spot_price''], df_rows = map (\<lambda>(d, vs). (d, [vs ! 0])) (df_rows A) \<rparr>"

definition future_series :: "data_frame \<Rightarrow> data_frame" where
  "future_series A =
     \<lparr> df_columns = [''future_price''], df_rows = map (\<lambda>(d, vs). (d, [vs ! 1])) (df_rows A) \<rparr>"

definition one_day_frame :: data_frame where
  "one_day_frame = \<lparr> df_columns = [''spot_price'', ''future_price''], df_rows = [(1, [100, 99])] \<rparr>"

section \<open>Stress test analyzer (stress_test.py)\<close>

datatype StressType = SharpDecline | SharpRally | HighVolatility

text \<open>
  The summary of a stress period as \<open>_create_stress_period_summary\<close> builds it, without
  its four volatility statistics, which nothing reads; \<open>stress_period\<close> adds the type.
\<close>

record period_summary =
  sp_start_date :: date
  sp_end_date :: date
  sp_duration_days :: nat
  start_index :: int
  end_index :: int
  sp_spot_price_change :: real
  sp_spot_price_change_pct :: npfloat
  sp_future_price_change :: real
  sp_future_price_change_pct :: npfloat

record stress_period = period_summary +
  stress_type :: StressType

definition with_stress_type :: "period_summary \<Rightarrow> StressType \<Rightarrow> stress_period" where
  "with_stress_type s t =
     \<lparr> sp_start_date = sp_start_date s, sp_end_date = sp_end_date s,
       sp_duration_days = sp_duration_days s,
       start_index = start_index s, end_index = end_index s,
       sp_spot_price_change = sp_spot_price_change s,
       sp_spot_price_change_pct = sp_spot_price_change_pct s,
       sp_future_price_change = sp_future_price_change s,
       sp_future_price_change_pct = sp_future_price_change_pct s,
       stress_type = t \<rparr>"

text \<open>
  The metrics of \<open>_calculate_period_performance\<close>, the information attached to a tested
  period, and a period result; \<open>performance = None\<close> is the empty dictionary returned for
  an empty slice.
\<close>

record period_performance =
  pp_days :: nat
  pp_total_hedged_pnl :: real
  pp_total_unhedged_pnl :: real
  pp_total_spot_pnl :: real
  pp_total_future_pnl :: real
  pp_avg_daily_hedged_pnl :: npfloat
  pp_avg_daily_unhedged_pnl :: npfloat
  pp_hedged_volatility :: npfloat
  pp_unhedged_volatility :: npfloat
  pp_max_daily_loss_hedged :: npfloat
  pp_max_daily_loss_unhedged :: npfloat
  pp_profitable_days_hedged :: nat
  pp_profitable_days_unhedged :: nat
  pp_profitable_days_ratio_hedged :: npfloat
  pp_profitable_days_ratio_unhedged :: npfloat
  pp_var_95_hedged :: real
  pp_var_95_unhedged :: real
  hedge_advantage :: real
  pp_risk_reduction_rate :: npfloat
  pp_max_drawdown_hedged :: npfloat
  pp_max_drawdown_unhedged :: npfloat

datatype period_info =
    Identified stress_period
  | CustomTest date date nat
  | NormalPeriod nat

record period_result =
  performance :: "period_performance option"
  period_info :: period_info

record stress_summary =
  total_stress_periods :: nat
  total_stress_days :: nat
  total_stress_pnl_hedged :: real
  total_stress_pnl_unhedged :: real
  avg_stress_pnl_hedged :: npfloat
  avg_stress_pnl_unhedged :: npfloat
  avg_volatility_hedged :: npfloat
  avg_volatility_unhedged :: npfloat
  max_single_loss_hedged :: npfloat
  max_single_loss_unhedged :: npfloat
  stress_effectiveness :: npfloat
  stress_vs_normal_pnl_ratio :: npfloat
  stress_vs_normal_volatility_ratio :: npfloat

datatype TestType = custom_period | identified_periods

record stress_result =
  tested_periods :: "period_result list"
  test_type :: TestType
  normal_period_comparison :: period_result
  summary :: "stress_summary option"

text \<open>The analyzer's attributes: the periods found last and the last test result.\<close>

record StressTestAnalyzer =
  stress_periods :: "stress_period list"
  stress_results :: "stress_result option"

subsection \<open>Identifying stress periods\<close>

text \<open>
  \<open>series.pct_change()\<close>: NaN first, then the quotient with the predecessor minus 1.
  A row of the working frame of \<open>identify_stress_periods\<close> carries its index label, the
  percentage change of the spot price and the flag for an extreme day.
\<close>

fun pd_pct_change :: "real list \<Rightarrow> npfloat list" where
  "pd_pct_change [] = []"
| "pd_pct_change (x # xs) =
     NaN # map (\<lambda>(prev, cur). np_sub (np_div (Fin cur) (Fin prev)) (Fin 1)) (zip (x # xs) xs)"

record stress_row = price_row +
  sr_label :: int
  spot_price_change_pct :: npfloat
  is_extreme :: bool

definition stress_frame :: "(int \<times> price_row) list \<Rightarrow> real \<Rightarrow> stress_row list" where
  "stress_frame aligned_data threshold =
     map (\<lambda>((l, r), p).
            \<lparr> date = date r, spot_price = spot_price r, future_price = future_price r,
              sr_label = l,
              spot_price_change_pct = np_mul p (Fin 100),
              is_extreme = np_gt (np_abs (np_mul p (Fin 100))) (Fin threshold) \<rparr>)
         (zip aligned_data (pd_pct_change (map (\<lambda>(l, r). spot_price r) aligned_data)))"

text \<open>\<open>data.loc[a:b]\<close> on an increasing index: the rows with a label from \<open>a\<close> to \<open>b\<close>.\<close>

definition pd_loc :: "stress_row list \<Rightarrow> int \<Rightarrow> int \<Rightarrow> stress_row list" where
  "pd_loc frame a b = filter (\<lambda>r. a \<le> sr_label r \<and> sr_label r \<le> b) frame"

text \<open>
  Lines 104 to 118 of \<open>_create_stress_period_summary\<close>: the dictionary. Formatting the
  first date raises on an empty period; after it the period has a first and a last row.
\<close>

definition period_summary_of :: "stress_row list \<Rightarrow> int \<Rightarrow> int \<Rightarrow> pyerror + period_summary" where
  "period_summary_of period_data start_idx end_idx =
     (case strftime (date_min (map date period_data)) of Inl e \<Rightarrow> Inl e | Inr d_first \<Rightarrow>
      (case strftime (date_max (map date period_data)) of Inl e \<Rightarrow> Inl e | Inr d_last \<Rightarrow>
       Inr \<lparr> sp_start_date = d_first,
             sp_end_date = d_last,
             sp_duration_days = length period_data,
             start_index = start_idx,
             end_index = end_idx,
             sp_spot_price_change =
               spot_price (last period_data) - spot_price (hd period_data),
             sp_spot_price_change_pct =
               np_mul (np_sub (np_div (Fin (spot_price (last period_data)))
                                      (Fin (spot_price (hd period_data)))) (Fin 1)) (Fin 100),
             sp_future_price_change =
               future_price (last period_data) - future_price (hd period_data),
             sp_future_price_change_pct =
               np_mul (np_sub (np_div (Fin (future_price (last period_data)))
                                      (Fin (future_price (hd period_data)))) (Fin 1)) (Fin 100) \<rparr>))"

text \<open>
  Lines 120 to 126: the classification reads the name \<open>price_change_threshold\<close>. The
  method's parameters are \<open>self\<close>, \<open>period_data\<close>, \<open>start_idx\<close> and \<open>end_idx\<close>, its only
  local is \<open>summary\<close>, and the module defines no such global: looking the name up raises
  NameError.
\<close>

definition price_change_threshold_in_summary_scope :: "pyerror + real" where
  "price_change_threshold_in_summary_scope = Inl (NameError ''price_change_threshold'')"

definition classify_stress :: "period_summary \<Rightarrow> pyerror + stress_period" where
  "classify_stress s =
     (case price_change_threshold_in_summary_scope of
        Inl e \<Rightarrow> Inl e
      | Inr threshold \<Rightarrow>
          Inr (with_stress_type s
                 (if np_gt (Fin (- threshold * real (sp_duration_days s) * (3 / 10)))
                           (sp_spot_price_change_pct s) then SharpDecline
                  else if np_gt (sp_spot_price_change_pct s)
                                (Fin (threshold * real (sp_duration_days s) * (3 / 10)))
                  then SharpRally
                  else HighVolatility)))"

definition create_stress_period_summary ::
  "stress_row list \<Rightarrow> int \<Rightarrow> int \<Rightarrow> pyerror + stress_period" where
  "create_stress_period_summary period_data start_idx end_idx =
     (case period_summary_of period_data start_idx end_idx of
        Inl e \<Rightarrow> Inl e
      | Inr s \<Rightarrow> classify_stress s)"

text \<open>
  Closing a run that ends at \<open>period_end\<close> (lines 61 to 70 and again 76 to 84): the period
  is recorded when it is long enough. \<open>period_start\<close> is \<open>None\<close> until the first run
  starts.
\<close>

definition close_period ::
  "stress_row list \<Rightarrow> int \<Rightarrow> int option \<Rightarrow> int \<Rightarrow> stress_period list
     \<Rightarrow> pyerror + stress_period list" where
  "close_period frame min_days period_start period_end periods =
     (case period_start of
        None \<Rightarrow> Inl (TypeError ''unsupported operand type(s) for -: int and NoneType'')
      | Some s \<Rightarrow>
          (let period_length = period_end - s + 1
           in if min_days \<le> period_length
              then (case create_stress_period_summary (pd_loc frame s period_end) s period_end of
                      Inl e \<Rightarrow> Inl e
                    | Inr p \<Rightarrow> Inr (periods @ [p]))
              else Inr periods))"

text \<open>The loop over the rows; the state is \<open>(in_stress_period, period_start, stress_periods)\<close>.\<close>

fun scan_rows ::
  "stress_row list \<Rightarrow> int \<Rightarrow> stress_row list \<Rightarrow> bool \<times> int option \<times> stress_period list
     \<Rightarrow> pyerror + (bool \<times> int option \<times> stress_period list)" where
  "scan_rows frame min_days [] st = Inr st"
| "scan_rows frame min_days (row # rest) (in_stress, period_start, periods) =
     (if is_extreme row \<and> \<not> in_stress
      then scan_rows frame min_days rest (True, Some (sr_label row), periods)
      else if \<not> is_extreme row \<and> in_stress
      then (case close_period frame min_days period_start (sr_label row - 1) periods of
              Inl e \<Rightarrow> Inl e
            | Inr periods' \<Rightarrow> scan_rows frame min_days rest (False, period_start, periods'))
      else scan_rows frame min_days rest (in_stress, period_start, periods))"

definition identify_stress_periods ::
  "StressTestAnalyzer \<Rightarrow> (int \<times> price_row) list \<Rightarrow> real \<Rightarrow> int
     \<Rightarrow> pyerror + (stress_period list \<times> StressTestAnalyzer)" where
  "identify_stress_periods self aligned_data threshold min_days =
     (if aligned_data = []
      then Inl (ValueError ''data is empty, cannot identify stress periods'')
      else let frame = stress_frame aligned_data threshold
           in case scan_rows frame min_days frame (False, None, []) of
                Inl e \<Rightarrow> Inl e
              | Inr (in_stress, period_start, periods) \<Rightarrow>
                  (case (if in_stress \<and> period_start \<noteq> None
                         then close_period frame min_days period_start
                                (int (length frame) - 1) periods
                         else Inr periods) of
                     Inl e \<Rightarrow> Inl e
                   | Inr periods' \<Rightarrow> Inr (periods', self\<lparr> stress_periods := periods' \<rparr>)))"

text \<open>The aligned data with its index 0, 1, 2, ... and the backtest data with its labels.\<close>

definition range_index :: "price_row list \<Rightarrow> (int \<times> price_row) list" where
  "range_index aligned_data = zip (map int [0 ..< length aligned_data]) aligned_data"

definition labelled_prices :: "bt_row list \<Rightarrow> (int \<times> price_row) list" where
  "labelled_prices rows = map (\<lambda>r. (label r, price_row.truncate r)) rows"

subsection \<open>Testing periods\<close>

text \<open>
  Python's slice \<open>xs[a:b]\<close> (negative bounds count from the end, bounds are clamped),
  as \<open>iloc[a:b]\<close> takes it, and the rows left when the slice is dropped.
\<close>

definition py_slice_index :: "int \<Rightarrow> nat \<Rightarrow> nat" where
  "py_slice_index i n = (if i < 0 then nat (max (i + int n) 0) else min (nat i) n)"

definition iloc_slice :: "'a list \<Rightarrow> int \<Rightarrow> int \<Rightarrow> 'a list" where
  "iloc_slice xs a b =
     (let lo = py_slice_index a (length xs); hi = py_slice_index b (length xs)
      in take (hi - lo) (drop lo xs))"

definition drop_slice :: "'a list \<Rightarrow> int \<Rightarrow> int \<Rightarrow> 'a list" where
  "drop_slice xs a b =
     (let lo = py_slice_index a (length xs); hi = py_slice_index b (length xs)
      in take lo xs @ drop (max lo hi) xs)"

text \<open>\<open>_calculate_max_drawdown\<close> of the analyzer: 0 on an empty series.\<close>

definition stress_max_drawdown :: "real list \<Rightarrow> npfloat" where
  "stress_max_drawdown cumulative_series =
     (if cumulative_series = [] then Fin 0 else calculate_max_drawdown cumulative_series)"

text \<open>
  \<open>_calculate_period_performance\<close>. The standard deviation, which the guard of the risk
  reduction compares with 0, is the parameter \<open>std\<close>, as in the backtest engine.
\<close>

definition calculate_period_performance ::
  "(real list \<Rightarrow> npfloat) \<Rightarrow> bt_row list \<Rightarrow> pyerror + period_performance option" where
  "calculate_period_performance std period_data =
     (if period_data = [] then Inr None
      else let hedged = map total_pnl period_data;
               unhedged = map unhedged_pnl period_data;
               n = length period_data;
               hedged_vol = std hedged;
               unhedged_vol = std unhedged
           in case np_percentile hedged 5 of Inl e \<Rightarrow> Inl e | Inr var_h \<Rightarrow>
              (case np_percentile unhedged 5 of Inl e \<Rightarrow> Inl e | Inr var_u \<Rightarrow>
               Inr (Some
                 \<lparr> pp_days = n,
                   pp_total_hedged_pnl = series_sum hedged,
                   pp_total_unhedged_pnl = series_sum unhedged,
                   pp_total_spot_pnl = series_sum (map spot_pnl period_data),
                   pp_total_future_pnl = series_sum (map future_pnl period_data),
                   pp_avg_daily_hedged_pnl = series_mean hedged,
                   pp_avg_daily_unhedged_pnl = series_mean unhedged,
                   pp_hedged_volatility = hedged_vol,
                   pp_unhedged_volatility = unhedged_vol,
                   pp_max_daily_loss_hedged = series_min hedged,
                   pp_max_daily_loss_unhedged = series_min unhedged,
                   pp_profitable_days_hedged = count_positive hedged,
                   pp_profitable_days_unhedged = count_positive unhedged,
                   pp_profitable_days_ratio_hedged =
                     np_div (Fin (real (count_positive hedged))) (Fin (real n)),
                   pp_profitable_days_ratio_unhedged =
                     np_div (Fin (real (count_positive unhedged))) (Fin (real n)),
                   pp_var_95_hedged = var_h,
                   pp_var_95_unhedged = var_u,
                   hedge_advantage = series_sum hedged - series_sum unhedged,
                   pp_risk_reduction_rate =
                     (if np_gt unhedged_vol (Fin 0)
                      then np_div (np_sub unhedged_vol hedged_vol) unhedged_vol else Fin 0),
                   pp_max_drawdown_hedged =
                     stress_max_drawdown (map total_pnl_cumulative period_data),
                   pp_max_drawdown_unhedged =
                     stress_max_drawdown (map unhedged_pnl_cumulative period_data) \<rparr>)))"

text \<open>
  \<open>_test_specific_periods\<close>: for each period, the metrics of the rows of the backtest
  data at the positions \<open>start_index\<close> to \<open>end_index\<close>.
\<close>

definition period_rows :: "bt_row list \<Rightarrow> stress_period \<Rightarrow> bt_row list" where
  "period_rows rows period = iloc_slice rows (start_index period) (end_index period + 1)"

fun test_specific_periods ::
  "(real list \<Rightarrow> npfloat) \<Rightarrow> bt_row list \<Rightarrow> stress_period list \<Rightarrow> pyerror + period_result list" where
  "test_specific_periods std rows [] = Inr []"
| "test_specific_periods std rows (period # periods) =
     (case calculate_period_performance std (period_rows rows period) of
        Inl e \<Rightarrow> Inl e
      | Inr perf \<Rightarrow>
          (case test_specific_periods std rows periods of
             Inl e \<Rightarrow> Inl e
           | Inr results \<Rightarrow> Inr (\<lparr> performance = perf, period_info = Identified period \<rparr> # results)))"

definition test_custom_period ::
  "(real list \<Rightarrow> npfloat) \<Rightarrow> bt_row list \<Rightarrow> date \<times> date \<Rightarrow> pyerror + period_result list" where
  "test_custom_period std rows period =
     (let (first_day, last_day) = period;
          period_data = filter (\<lambda>r. first_day \<le> date r \<and> date r \<le> last_day) rows
      in if period_data = [] then Inl (ValueError ''no data in the given period'')
         else case calculate_period_performance std period_data of
                Inl e \<Rightarrow> Inl e
              | Inr perf \<Rightarrow>
                  Inr [\<lparr> performance = perf,
                         period_info = CustomTest first_day last_day (length period_data) \<rparr>])"

text \<open>
  \<open>_get_normal_period_analysis\<close>: the rows that remain when the slices of the periods
  stored in the analyzer are dropped one after the other (all rows when nothing is
  stored, and again all rows when nothing remains), and their metrics.
\<close>

definition normal_data :: "stress_period list \<Rightarrow> bt_row list \<Rightarrow> bt_row list" where
  "normal_data stored rows =
     (let remaining =
            (if stored \<noteq> []
             then fold (\<lambda>period nd. drop_slice nd (start_index period) (end_index period + 1))
                       stored rows
             else rows)
      in if remaining = [] then rows else remaining)"

definition get_normal_period_analysis ::
  "(real list \<Rightarrow> npfloat) \<Rightarrow> StressTestAnalyzer \<Rightarrow> bt_row list \<Rightarrow> pyerror + period_result" where
  "get_normal_period_analysis std self rows =
     (let nd = normal_data (stress_periods self) rows
      in case calculate_period_performance std nd of
           Inl e \<Rightarrow> Inl e
         | Inr perf \<Rightarrow> Inr \<lparr> performance = perf, period_info = NormalPeriod (length nd) \<rparr>)"

text \<open>
  \<open>_calculate_stress_summary\<close>. A period result without metrics has no key \<open>days\<close>, and
  a normal result without metrics no key \<open>avg_daily_hedged_pnl\<close>: reading them raises
  KeyError. \<open>np.mean\<close> and Python's \<open>min\<close> run over the values of the periods.
\<close>

definition np_mean :: "npfloat list \<Rightarrow> npfloat" where
  "np_mean xs = np_div (fold (\<lambda>x acc. np_add acc x) xs (Fin 0)) (Fin (real (length xs)))"

definition py_min :: "npfloat list \<Rightarrow> npfloat" where
  "py_min xs = (case xs of [] \<Rightarrow> NaN | x # ys \<Rightarrow> fold (\<lambda>y m. if np_gt m y then y else m) ys x)"

definition calculate_stress_summary ::
  "period_result list \<Rightarrow> period_result \<Rightarrow> pyerror + stress_summary option" where
  "calculate_stress_summary results normal_result =
     (if results = [] then Inr None
      else case those (map performance results) of
             None \<Rightarrow> Inl (KeyError ''days'')
           | Some ps \<Rightarrow>
               (let days = sum_list (map pp_days ps);
                    pnl_hedged = sum_list (map pp_total_hedged_pnl ps);
                    pnl_unhedged = sum_list (map pp_total_unhedged_pnl ps);
                    vol_hedged = np_mean (map pp_hedged_volatility ps);
                    vol_unhedged = np_mean (map pp_unhedged_volatility ps);
                    loss_hedged = py_min (map pp_max_daily_loss_hedged ps);
                    loss_unhedged = py_min (map pp_max_daily_loss_unhedged ps)
                in case performance normal_result of
                     None \<Rightarrow> Inl (KeyError ''avg_daily_hedged_pnl'')
                   | Some np \<Rightarrow>
                       Inr (Some
                         \<lparr> total_stress_periods = length results,
                           total_stress_days = days,
                           total_stress_pnl_hedged = pnl_hedged,
                           total_stress_pnl_unhedged = pnl_unhedged,
                           avg_stress_pnl_hedged = np_div (Fin pnl_hedged) (Fin (real days)),
                           avg_stress_pnl_unhedged = np_div (Fin pnl_unhedged) (Fin (real days)),
                           avg_volatility_hedged = vol_hedged,
                           avg_volatility_unhedged = vol_unhedged,
                           max_single_loss_hedged = loss_hedged,
                           max_single_loss_unhedged = loss_unhedged,
                           stress_effectiveness =
                             (if np_gt vol_unhedged (Fin 0)
                              then np_sub (Fin 1) (np_div vol_hedged vol_unhedged) else Fin 0),
                           stress_vs_normal_pnl_ratio =
                             (if pp_avg_daily_hedged_pnl np \<noteq> Fin 0
                              then np_div (np_div (Fin pnl_hedged) (Fin (real days)))
                                          (pp_avg_daily_hedged_pnl np)
                              else Fin 0),
                           stress_vs_normal_volatility_ratio =
                             (if pp_hedged_volatility np \<noteq> Fin 0
                              then np_div vol_hedged (pp_hedged_volatility np)
                              else Fin 0) \<rparr>)))"

text \<open>
  Lines 159 to 160 of \<open>run_stress_test\<close>: when the analyzer stores no period, it runs
  the detector on the backtest data, with the default threshold 5.0 and 3 days, and the
  detector stores what it found.
\<close>

definition stored_or_detected ::
  "StressTestAnalyzer \<Rightarrow> bt_row list \<Rightarrow> pyerror + StressTestAnalyzer" where
  "stored_or_detected self rows =
     (if stress_periods self = []
      then (case identify_stress_periods self (labelled_prices rows) 5 3 of
              Inl e \<Rightarrow> Inl e
            | Inr (found, self1) \<Rightarrow> Inr self1)
      else Inr self)"

text \<open>
  \<open>run_stress_test\<close>. A custom period wins over a list of periods, and an empty list
  counts as no list: then the stored or detected periods are tested. The normal-period
  analysis reads the analyzer, not the argument.
\<close>

definition run_stress_test ::
  "(real list \<Rightarrow> npfloat) \<Rightarrow> StressTestAnalyzer \<Rightarrow> backtest_result option
     \<Rightarrow> stress_period list option \<Rightarrow> (date \<times> date) option
     \<Rightarrow> pyerror + (stress_result \<times> StressTestAnalyzer)" where
  "run_stress_test std self bt_results periods_arg custom =
     (case bt_results of
        None \<Rightarrow> Inl (ValueError ''invalid backtest result'')
      | Some bt \<Rightarrow>
          (let rows = data bt;
               tested =
                 (case custom of
                    Some period \<Rightarrow>
                      (case test_custom_period std rows period of
                         Inl e \<Rightarrow> Inl e
                       | Inr rs \<Rightarrow> Inr (rs, custom_period, self))
                  | None \<Rightarrow>
                      (if periods_arg \<noteq> None \<and> periods_arg \<noteq> Some []
                       then (case test_specific_periods std rows (the periods_arg) of
                               Inl e \<Rightarrow> Inl e
                             | Inr rs \<Rightarrow> Inr (rs, identified_periods, self))
                       else (case stored_or_detected self rows of
                               Inl e \<Rightarrow> Inl e
                             | Inr self1 \<Rightarrow>
                                 (case test_specific_periods std rows (stress_periods self1) of
                                    Inl e \<Rightarrow> Inl e
                                  | Inr rs \<Rightarrow> Inr (rs, identified_periods, self1)))))
           in case tested of
                Inl e \<Rightarrow> Inl e
              | Inr (rs, kind, self2) \<Rightarrow>
                  (case get_normal_period_analysis std self2 rows of
                     Inl e \<Rightarrow> Inl e
                   | Inr normal_results \<Rightarrow>
                       (case calculate_stress_summary rs normal_results of
                          Inl e \<Rightarrow> Inl e
                        | Inr s \<Rightarrow>
                            (let res = \<lparr> tested_periods = rs, test_type = kind,
                                        normal_period_comparison = normal_results,
                                        summary = s \<rparr>
                             in Inr (res, self2\<lparr> stress_results := Some res \<rparr>))))))"

text \<open>
  A series with one run of five extreme days (each doubles the spot price) between calm
  days, and a six-day series whose days 2 to 4 are extreme.
\<close>

definition five_day_run :: "price_row list" where
  "five_day_run =
     [\<lparr>date = 0, spot_price = 100, future_price = 100\<rparr>,
      \<lparr>date = 1, spot_price = 100, future_price = 100\<rparr>,
      \<lparr>date = 2, spot_price = 200, future_price = 200\<rparr>,
      \<lparr>date = 3, spot_price = 400, future_price = 400\<rparr>,
      \<lparr>date = 4, spot_price = 800, future_price = 800\<rparr>,
      \<lparr>date = 5, spot_price = 1600, future_price = 1600\<rparr>,
      \<lparr>date = 6, spot_price = 3200, future_price = 3200\<rparr>,
      \<lparr>date = 7, spot_price = 3200, future_price = 3200\<rparr>,
      \<lparr>date = 8, spot_price = 3200, future_price = 3200\<rparr>]"

definition six_days :: "price_row list" where
  "six_days =
     [\<lparr>date = 0, spot_price = 100, future_price = 50\<rparr>,
      \<lparr>date = 1, spot_price = 101, future_price = 50\<rparr>,
      \<lparr>date = 2, spot_price = 120, future_price = 60\<rparr>,
      \<lparr>date = 3, spot_price = 140, future_price = 70\<rparr>,
      \<lparr>date = 4, spot_price = 160, future_price = 80\<rparr>,
      \<lparr>date = 5, spot_price = 161, future_price = 80\<rparr>]"

text \<open>
  The period of days 2 to 4 of \<open>six_days\<close>, indexed into the backtest data of
  \<open>six_days\<close>, whose rows are the days 1 to 5: the days 2 to 4 are its rows 1 to 3.
\<close>

definition rally_period :: stress_period where
  "rally_period =
     \<lparr> sp_start_date = 2, sp_end_date = 4, sp_duration_days = 3,
       start_index = 1, end_index = 3,
       sp_spot_price_change = 40, sp_spot_price_change_pct = Fin (100 / 3),
       sp_future_price_change = 20, sp_future_price_change_pct = Fin (100 / 3),
       stress_type = SharpRally \<rparr>"

section \<open>Reference notions for the stress test\<close>


definition covered_rows :: "bt_row list \<Rightarrow> stress_period \<Rightarrow> bt_row list" where
  "covered_rows rows p = filter (\<lambda>r. sp_start_date p \<le> date r \<and> date r \<le> sp_end_date p) rows"


section \<open>Backtest engine: the frame row by row\<close>

lemma length_deltas: "length (deltas xs) = length xs - 1"
  by (simp add: deltas_def)

lemma deltas_nth: "Suc k < length xs \<Longrightarrow> deltas xs ! k = xs ! Suc k - xs ! k"
  by (simp add: deltas_def nth_tl)

lemma pd_diff_nf: "xs \<noteq> [] \<Longrightarrow> pd_diff xs = None # map Some (deltas xs)"
  by (cases xs) (auto simp: deltas_def)

lemma col_scale_nf:
  "col_scale (Some c) (None # map Some ys) = None # map Some (map (\<lambda>x. c * x) ys)"
  by (simp add: col_scale_def float_mul_def)

lemma length_pd_diff: "length (pd_diff xs) = length xs"
  by (cases xs) simp_all

lemma map_filter_empty:
  "(\<And>x. x \<in> set xs \<Longrightarrow> f x = None) \<Longrightarrow> List.map_filter f xs = []"
  by (induction xs) (simp_all add: List.map_filter_simps)

lemma col_add_nf:
  "col_add (None # map Some ys) (None # map Some zs) = None # map Some (map (\<lambda>(a, b). a + b) (zip ys zs))"
  by (auto simp: col_add_def zip_map_map)

lemma cumsum_from_Some:
  "cumsum_from acc (map Some ys) = map (\<lambda>k. Some (acc + sum_list (take (Suc k) ys))) [0 ..< length ys]"
proof (induction ys arbitrary: acc)
  case Nil
  then show ?case by simp
next
  case (Cons y ys)
  have "[0 ..< length (y # ys)] = 0 # map Suc [0 ..< length ys]"
    by (simp add: upt_conv_Cons map_Suc_upt del: upt_Suc)
  then show ?case
    by (simp add: Cons.IH add.assoc o_def del: upt_Suc)
qed

lemma pd_cumsum_nf: "pd_cumsum (None # map Some ys) = None # map Some (running_sum ys)"
  by (simp add: pd_cumsum_def cumsum_from_Some running_sum_def o_def)

lemma length_running_sum: "length (running_sum xs) = length xs"
  by (simp add: running_sum_def)

lemma running_sum_nth: "k < length xs \<Longrightarrow> running_sum xs ! k = sum_list (take (Suc k) xs)"
  by (simp add: running_sum_def)

lemma upt_split: "0 < n \<Longrightarrow> [0 ..< n] = 0 # map Suc [0 ..< n - 1]"
  by (cases n) (simp_all add: upt_conv_Cons map_Suc_upt del: upt_Suc)

lemma map_filter_map_Some:
  "(\<And>x. x \<in> set xs \<Longrightarrow> f (g x) = Some (h x)) \<Longrightarrow> List.map_filter f (map g xs) = map h xs"
  by (induction xs) (simp_all add: List.map_filter_simps)

lemma dropna_pnl_frame_nan: "pd_dropna (pnl_frame A q None d) = []"
  unfolding pd_dropna_def
  by (rule map_filter_empty)
    (auto simp: pnl_frame_def Let_def complete_row_def col_scale_def float_mul_def
      float_neg_def length_pd_diff split: HedgeDirection.splits)

lemma dropna_pnl_frame_one_row: "pd_dropna (pnl_frame [r] q fq d) = []"
  by (simp add: pd_dropna_def pnl_frame_def Let_def complete_row_def List.map_filter_simps)

lemma dropna_pnl_frame:
  assumes "A \<noteq> []"
  shows "pd_dropna (pnl_frame A (Some q) (Some fq) d) = day_rows A q fq d"
proof -
  let ?n = "length A"
  have n: "0 < ?n" using assms by simp
  have ls: "map spot_price A \<noteq> []" and lf: "map future_price A \<noteq> []"
    using assms by simp_all
  define ds where "ds = deltas (map spot_price A)"
  define df where "df = deltas (map future_price A)"
  define sp where "sp = map (\<lambda>x. dir_spot d q * x) ds"
  define fp where "fp = map (\<lambda>x. dir_future d fq * x) df"
  define tp where "tp = map (\<lambda>(a, b). a + b) (zip sp fp)"
  have len: "length ds = ?n - 1" "length df = ?n - 1" "length sp = ?n - 1"
    "length fp = ?n - 1" "length tp = ?n - 1"
    by (simp_all add: ds_def df_def sp_def fp_def tp_def length_deltas)
  have spc: "pd_diff (map spot_price A) = None # map Some ds"
    unfolding ds_def by (rule pd_diff_nf [OF ls])
  have fpc: "pd_diff (map future_price A) = None # map Some df"
    unfolding df_def by (rule pd_diff_nf [OF lf])
  have spnl: "(case d of SHORT_HEDGE \<Rightarrow> col_scale (Some q) (None # map Some ds)
               | LONG_HEDGE \<Rightarrow> col_scale (float_neg (Some q)) (None # map Some ds))
             = None # map Some sp"
    by (cases d) (simp_all add: col_scale_nf float_neg_def sp_def dir_spot_def)
  have upnl: "(if d = SHORT_HEDGE then col_scale (Some q) (None # map Some ds)
               else col_scale (float_neg (Some q)) (None # map Some ds)) = None # map Some sp"
    by (cases d) (simp_all add: col_scale_nf float_neg_def sp_def dir_spot_def)
  have fpnl: "(case d of SHORT_HEDGE \<Rightarrow> col_scale (float_neg (Some fq)) (None # map Some df)
               | LONG_HEDGE \<Rightarrow> col_scale (Some fq) (None # map Some df)) = None # map Some fp"
    by (cases d) (simp_all add: col_scale_nf float_neg_def fp_def dir_future_def)
  have tpnl: "col_add (None # map Some sp) (None # map Some fp) = None # map Some tp"
    by (simp add: col_add_nf tp_def)
  have frame: "pnl_frame A (Some q) (Some fq) d =
     map (\<lambda>i. \<lparr> date = date (A ! i), spot_price = spot_price (A ! i),
                future_price = future_price (A ! i), raw_label = int i,
                raw_spot_price_change = (None # map Some ds) ! i,
                raw_future_price_change = (None # map Some df) ! i,
                raw_spot_pnl = (None # map Some sp) ! i,
                raw_future_pnl = (None # map Some fp) ! i,
                raw_total_pnl = (None # map Some tp) ! i,
                raw_unhedged_pnl = (None # map Some sp) ! i,
                raw_total_pnl_cumulative = (None # map Some (running_sum tp)) ! i,
                raw_unhedged_pnl_cumulative = (None # map Some (running_sum sp)) ! i,
                raw_spot_pnl_cumulative = (None # map Some (running_sum sp)) ! i,
                raw_future_pnl_cumulative = (None # map Some (running_sum fp)) ! i \<rparr>)
         [0 ..< ?n]"
    unfolding pnl_frame_def Let_def spc fpc spnl upnl fpnl tpnl pd_cumsum_nf ..
  show ?thesis
    unfolding pd_dropna_def frame upt_split [OF n] day_rows_def Let_def
    apply (simp add: List.map_filter_simps complete_row_def o_def del: upt_Suc)
    apply (rule map_filter_map_Some)
    apply (simp add: len length_running_sum ds_def [symmetric] df_def [symmetric]
        sp_def [symmetric] fp_def [symmetric] tp_def [symmetric])
    apply (simp add: complete_row_def)
    done
qed

lemma metrics_total:
  assumes "rows \<noteq> []"
  shows "\<exists>m. calculate_performance_metrics std rows d q fq = Inr m
    \<and> hedged_volatility m = std (map total_pnl rows)
    \<and> unhedged_volatility m = std (map unhedged_pnl rows)
    \<and> avg_daily_hedged_pnl m = series_mean (map total_pnl rows)
    \<and> avg_daily_unhedged_pnl m = series_mean (map unhedged_pnl rows)
    \<and> sharpe_ratio_hedged m
        = fst (sharpe_ratio (series_mean (map total_pnl rows)) (std (map total_pnl rows)))
    \<and> sharpe_ratio_unhedged m
        = fst (sharpe_ratio (series_mean (map unhedged_pnl rows)) (std (map unhedged_pnl rows)))"
  using assms
  by (cases rows) (simp_all add: calculate_performance_metrics_def np_percentile_def
      strftime_def date_min_def date_max_def Let_def)

lemma metrics_empty:
  "calculate_performance_metrics std [] d q fq =
     Inl (IndexError ''index -1 is out of bounds for axis 0 with size 0'')"
  by (simp add: calculate_performance_metrics_def np_percentile_def Let_def)

lemma day_rows_length: "length (day_rows A q fq d) = length A - 1"
  by (simp add: day_rows_def Let_def)

lemma run_backtest_nan:
  assumes "A \<noteq> []" and "h = None \<or> q = None"
  shows "run_backtest std self A h q d cs
     = Inl (IndexError ''index -1 is out of bounds for axis 0 with size 0'')"
proof -
  from assms(2) have "float_mul q h = None"
    by (auto simp: float_mul_def split: option.splits)
  then show ?thesis
    using assms(1) by (simp add: run_backtest_def Let_def dropna_pnl_frame_nan metrics_empty)
qed

lemma run_backtest_data:
  assumes "run_backtest std self A h q d cs = Inr (res, self')"
  shows "A \<noteq> [] \<and> (\<exists>qv hv. q = Some qv \<and> h = Some hv \<and> data res = day_rows A qv (qv * hv) d)"
proof -
  from assms have ne: "A \<noteq> []"
    by (auto simp: run_backtest_def split: if_splits)
  from run_backtest_nan [OF ne, of h q std self d cs] assms obtain qv hv
    where q: "q = Some qv" and h: "h = Some hv"
    by (cases q; cases h) auto
  from assms ne have "data res = day_rows A qv (qv * hv) d"
    by (auto simp: run_backtest_def Let_def q h float_mul_def dropna_pnl_frame split: sum.splits)
  with ne q h show ?thesis by simp
qed

lemma run_backtest_total:
  assumes "2 \<le> length A"
  shows "\<exists>res self'. run_backtest std self A (Some h) (Some q) d cs = Inr (res, self')"
proof -
  have ne: "A \<noteq> []" using assms by auto
  have "length (day_rows A q (q * h) d) \<noteq> 0"
    using assms by (simp add: day_rows_length)
  then have "day_rows A q (q * h) d \<noteq> []" by simp
  from metrics_total [OF this, of std d "Some q" "Some (q * h)"] obtain m
    where "calculate_performance_metrics std (day_rows A q (q * h) d) d (Some q) (Some (q * h))
             = Inr m"
    by blast
  then show ?thesis
    using ne by (simp add: run_backtest_def Let_def float_mul_def dropna_pnl_frame)
qed

lemma day_rows_nth:
  assumes "k < length A - 1"
  shows "date (day_rows A q fq d ! k) = date (A ! Suc k)"
    and "spot_price_change (day_rows A q fq d ! k) = spot_price (A ! Suc k) - spot_price (A ! k)"
    and "future_price_change (day_rows A q fq d ! k) = future_price (A ! Suc k) - future_price (A ! k)"
    and "spot_pnl (day_rows A q fq d ! k) = dir_spot d q * spot_price_change (day_rows A q fq d ! k)"
    and "future_pnl (day_rows A q fq d ! k) = dir_future d fq * future_price_change (day_rows A q fq d ! k)"
    and "unhedged_pnl (day_rows A q fq d ! k) = dir_spot d q * spot_price_change (day_rows A q fq d ! k)"
    and "total_pnl (day_rows A q fq d ! k) = spot_pnl (day_rows A q fq d ! k) + future_pnl (day_rows A q fq d ! k)"
  using assms by (simp_all add: day_rows_def Let_def length_deltas deltas_nth)

lemma day_rows_columns:
  "map total_pnl_cumulative (day_rows A q fq d) = running_sum (map total_pnl (day_rows A q fq d))"
  "map unhedged_pnl_cumulative (day_rows A q fq d) = running_sum (map unhedged_pnl (day_rows A q fq d))"
  "map spot_pnl_cumulative (day_rows A q fq d) = running_sum (map spot_pnl (day_rows A q fq d))"
  "map future_pnl_cumulative (day_rows A q fq d) = running_sum (map future_pnl (day_rows A q fq d))"
proof -
  define ds where "ds = deltas (map spot_price A)"
  define df where "df = deltas (map future_price A)"
  define sp where "sp = map (\<lambda>x. dir_spot d q * x) ds"
  define fp where "fp = map (\<lambda>x. dir_future d fq * x) df"
  define tp where "tp = map (\<lambda>(a, b). a + b) (zip sp fp)"
  have len: "length sp = length A - 1" "length fp = length A - 1" "length tp = length A - 1"
    by (simp_all add: ds_def df_def sp_def fp_def tp_def length_deltas)
  have nth_all: "\<And>xs :: real list. length xs = length A - Suc 0 \<Longrightarrow> map ((!) xs) [0 ..< length A - Suc 0] = xs"
    by (metis map_nth)
  have cols: "map total_pnl (day_rows A q fq d) = tp" "map unhedged_pnl (day_rows A q fq d) = sp"
    "map spot_pnl (day_rows A q fq d) = sp" "map future_pnl (day_rows A q fq d) = fp"
    unfolding day_rows_def Let_def ds_def [symmetric] df_def [symmetric] sp_def [symmetric]
      fp_def [symmetric] tp_def [symmetric]
    by (simp_all add: o_def nth_all len)
  have cums: "map total_pnl_cumulative (day_rows A q fq d) = running_sum tp"
    "map unhedged_pnl_cumulative (day_rows A q fq d) = running_sum sp"
    "map spot_pnl_cumulative (day_rows A q fq d) = running_sum sp"
    "map future_pnl_cumulative (day_rows A q fq d) = running_sum fp"
    unfolding day_rows_def Let_def ds_def [symmetric] df_def [symmetric] sp_def [symmetric]
      fp_def [symmetric] tp_def [symmetric]
    by (simp_all add: o_def nth_all len length_running_sum)
  show "map total_pnl_cumulative (day_rows A q fq d) = running_sum (map total_pnl (day_rows A q fq d))"
    "map unhedged_pnl_cumulative (day_rows A q fq d) = running_sum (map unhedged_pnl (day_rows A q fq d))"
    "map spot_pnl_cumulative (day_rows A q fq d) = running_sum (map spot_pnl (day_rows A q fq d))"
    "map future_pnl_cumulative (day_rows A q fq d) = running_sum (map future_pnl (day_rows A q fq d))"
    by (simp_all add: cols cums)
qed

lemma day_rows_total:
  "r \<in> set (day_rows A q fq d) \<Longrightarrow> total_pnl r = spot_pnl r + future_pnl r"
  by (metis day_rows_length day_rows_nth(7) in_set_conv_nth)

text \<open>
  With a positive volatility, however small, the guard of the Sharpe ratio passes and the
  ratio is the quotient: a constant series whose floating-point standard deviation is
  a tiny positive number gets a huge Sharpe ratio, not 0.
\<close>

lemma sharpe_positive_volatility:
  "0 < v \<Longrightarrow> sharpe_ratio (Fin a) (Fin v) = (Fin (a / v), [Fin v])"
  by (simp add: sharpe_ratio_def)

section \<open>Backtest engine: claims\<close>

text \<open>
  C1, as stated for every hedge ratio, fails. On \<open>flat_futures\<close>, four days on which the
  futures price does not move, \<open>calculate_optimal_hedge_ratio\<close> returns the ratio NaN
  (the covariance 0 over the variance 0). \<open>run_backtest\<close> on the same series with this
  ratio (\<open>None\<close>), spot quantity 10 and direction SHORT_HEDGE has NaN in every row of the
  futures P&L, \<open>dropna\<close> removes every row, and the call raises instead of returning the
  three days with their P&L.
\<close>

theorem nan_ratio_backtest_raises:
  "2 \<le> length flat_futures
   \<and> (\<exists>res self'. calculate_optimal_hedge_ratio \<lparr>last_calculation = None\<rparr> flat_futures None
                     = Inr (NaN, res, self'))
   \<and> pd_dropna (pnl_frame flat_futures (Some 10) (float_mul (Some 10) None) SHORT_HEDGE) = []
   \<and> run_backtest series_std \<lparr>backtest_results = None\<rparr> flat_futures None (Some 10) SHORT_HEDGE 1
       = Inl (IndexError ''index -1 is out of bounds for axis 0 with size 0'')"
proof -
  have len: "2 \<le> length flat_futures" by (simp add: flat_futures_def)
  have ne: "flat_futures \<noteq> []" by (simp add: flat_futures_def)
  have ch: "change_rows flat_futures = [(2, 0), (- 1, 0), (4, 0)]"
    by (simp add: change_rows_def flat_futures_def List.map_filter_simps)
  have cov1: "np_cov [2, - 1, 4] [0, 0, 0] = Fin 0"
    by (simp add: np_cov_def)
  have cov2: "np_cov [0, 0, 0] [0, 0, 0] = Fin 0"
    by (simp add: np_cov_def)
  have hc: "ols_has_constant [0, 0, 0]"
    by (simp add: ols_has_constant_def)
  have est: "\<exists>res self'. calculate_optimal_hedge_ratio \<lparr>last_calculation = None\<rparr> flat_futures None
                     = Inr (NaN, res, self')"
    by (simp add: calculate_optimal_hedge_ratio_def ne ch cov1 cov2 hc Let_def
        split: prod.splits)
  have fq: "float_mul (Some 10) None = None" by (simp add: float_mul_def)
  have dropped:
    "pd_dropna (pnl_frame flat_futures (Some 10) (float_mul (Some 10) None) SHORT_HEDGE) = []"
    by (simp add: fq dropna_pnl_frame_nan)
  have raised:
    "run_backtest series_std \<lparr>backtest_results = None\<rparr> flat_futures None (Some 10) SHORT_HEDGE 1
       = Inl (IndexError ''index -1 is out of bounds for axis 0 with size 0'')"
    by (rule run_backtest_nan [OF ne]) simp
  from len est dropped raised show ?thesis by (intro conjI)
qed

text \<open>
  C1, amended. For every aligned series with at least two rows, every finite spot
  quantity \<open>q\<close> and every finite hedge ratio \<open>h\<close>, \<open>run_backtest\<close> returns a result whose
  rows are the days after the first; on each of them, with direction SHORT_HEDGE,
  \<open>spot_pnl = q * \<Delta>spot\<close>, \<open>future_pnl = - (q * h) * \<Delta>future\<close> and
  \<open>unhedged_pnl = q * \<Delta>spot\<close>, and with direction LONG_HEDGE the signs are reversed. In
  particular, for SHORT_HEDGE with \<open>q = 10\<close>, \<open>h = 0.5\<close> and a day with \<open>\<Delta>spot = 5\<close> and
  \<open>\<Delta>future = 4\<close>, the row has \<open>spot_pnl = 50\<close>, \<open>future_pnl = -20\<close>, \<open>total_pnl = 30\<close> and
  \<open>unhedged_pnl = 50\<close>.
\<close>

theorem run_backtest_daily_pnl:
  assumes "2 \<le> length aligned_data"
  shows "\<exists>res self'. run_backtest std self aligned_data (Some h) (Some q) d cs = Inr (res, self')
    \<and> length (data res) = length aligned_data - 1
    \<and> (\<forall>k < length (data res).
          date (data res ! k) = date (aligned_data ! Suc k)
        \<and> spot_price_change (data res ! k)
            = spot_price (aligned_data ! Suc k) - spot_price (aligned_data ! k)
        \<and> future_price_change (data res ! k)
            = future_price (aligned_data ! Suc k) - future_price (aligned_data ! k)
        \<and> (d = SHORT_HEDGE \<longrightarrow>
              spot_pnl (data res ! k) = q * spot_price_change (data res ! k)
            \<and> future_pnl (data res ! k) = - (q * h) * future_price_change (data res ! k)
            \<and> unhedged_pnl (data res ! k) = q * spot_price_change (data res ! k))
        \<and> (d = LONG_HEDGE \<longrightarrow>
              spot_pnl (data res ! k) = - q * spot_price_change (data res ! k)
            \<and> future_pnl (data res ! k) = (q * h) * future_price_change (data res ! k)
            \<and> unhedged_pnl (data res ! k) = - q * spot_price_change (data res ! k))
        \<and> (d = SHORT_HEDGE \<and> q = 10 \<and> h = 1 / 2
             \<and> spot_price_change (data res ! k) = 5 \<and> future_price_change (data res ! k) = 4 \<longrightarrow>
              spot_pnl (data res ! k) = 50 \<and> future_pnl (data res ! k) = - 20
            \<and> total_pnl (data res ! k) = 30 \<and> unhedged_pnl (data res ! k) = 50))"
    (is "\<exists>res self'. _ \<and> _ \<and> (\<forall>k < length (data res). ?row res k)")
proof -
  from run_backtest_total [OF assms] obtain res self'
    where run: "run_backtest std self aligned_data (Some h) (Some q) d cs = Inr (res, self')"
    by blast
  from run_backtest_data [OF run]
  have dat: "data res = day_rows aligned_data q (q * h) d" by simp
  have len: "length (data res) = length aligned_data - 1"
    by (simp add: dat day_rows_length)
  have "?row res k" if "k < length (data res)" for k
  proof -
    from that have k: "k < length aligned_data - 1" by (simp add: len)
    note day = day_rows_nth [OF k, of q "q * h" d, folded dat]
    show ?thesis
    proof (cases d)
      case LONG_HEDGE
      with day show ?thesis by (simp add: dir_spot_def dir_future_def)
    next
      case SHORT_HEDGE
      with day show ?thesis by (simp add: dir_spot_def dir_future_def)
    qed
  qed
  with run len show ?thesis by blast
qed

theorem run_backtest_daily_pnl_witness:
  "2 \<le> length [\<lparr>date = 0, spot_price = 100, future_price = 50\<rparr>,
                 \<lparr>date = 1, spot_price = 105, future_price = 54\<rparr>]
   \<and> (\<exists>res self'.
        run_backtest series_std \<lparr>backtest_results = None\<rparr>
          [\<lparr>date = 0, spot_price = 100, future_price = 50\<rparr>,
           \<lparr>date = 1, spot_price = 105, future_price = 54\<rparr>] (Some (1 / 2)) (Some 10) SHORT_HEDGE 1
          = Inr (res, self')
      \<and> length (data res) = 1
      \<and> date (data res ! 0) = 1
      \<and> spot_pnl (data res ! 0) = 50 \<and> future_pnl (data res ! 0) = - 20
      \<and> total_pnl (data res ! 0) = 30 \<and> unhedged_pnl (data res ! 0) = 50)"
proof -
  have two: "2 \<le> length [\<lparr>date = 0::int, spot_price = 100::real, future_price = 50::real\<rparr>,
                 \<lparr>date = 1, spot_price = 105, future_price = 54\<rparr>]"
    by simp
  from run_backtest_daily_pnl [OF two, of series_std "\<lparr>backtest_results = None\<rparr>" "1 / 2" 10
      SHORT_HEDGE 1]
  obtain res self' where
    "run_backtest series_std \<lparr>backtest_results = None\<rparr>
          [\<lparr>date = 0, spot_price = 100, future_price = 50\<rparr>,
           \<lparr>date = 1, spot_price = 105, future_price = 54\<rparr>] (Some (1 / 2)) (Some 10) SHORT_HEDGE 1
          = Inr (res, self')"
    and "length (data res) = 1"
    and "date (data res ! 0) = 1
      \<and> spot_pnl (data res ! 0) = 50 \<and> future_pnl (data res ! 0) = - 20
      \<and> total_pnl (data res ! 0) = 30 \<and> unhedged_pnl (data res ! 0) = 50"
    by auto
  with two show ?thesis by blast
qed

text \<open>
  C2. In every result of \<open>run_backtest\<close> (the aligned series is then non-empty), every row
  has \<open>total_pnl = spot_pnl + future_pnl\<close>, and each of the four cumulative columns is the
  running sum, in row order, of its daily column over the rows of the result; the dropped
  first row adds nothing. This holds for every hedge ratio and spot quantity, NaN
  included, and whatever the standard deviation computes.
\<close>

theorem run_backtest_total_and_cumulative:
  assumes "run_backtest std self aligned_data h q d cs = Inr (res, self')"
  shows "aligned_data \<noteq> []
    \<and> (\<forall>r \<in> set (data res). total_pnl r = spot_pnl r + future_pnl r)
    \<and> map total_pnl_cumulative (data res) = running_sum (map total_pnl (data res))
    \<and> map unhedged_pnl_cumulative (data res) = running_sum (map unhedged_pnl (data res))
    \<and> map spot_pnl_cumulative (data res) = running_sum (map spot_pnl (data res))
    \<and> map future_pnl_cumulative (data res) = running_sum (map future_pnl (data res))"
proof -
  from run_backtest_data [OF assms] obtain qv hv
    where ne: "aligned_data \<noteq> []" and dat: "data res = day_rows aligned_data qv (qv * hv) d"
    by blast
  from ne show ?thesis
    using day_rows_columns [of aligned_data qv "qv * hv" d]
      day_rows_total [of _ aligned_data qv "qv * hv" d]
    by (simp add: dat)
qed

theorem run_backtest_total_and_cumulative_witness:
  "\<exists>res self'.
     run_backtest series_std \<lparr>backtest_results = None\<rparr>
       [\<lparr>date = 0, spot_price = 100, future_price = 50\<rparr>,
        \<lparr>date = 1, spot_price = 105, future_price = 54\<rparr>,
        \<lparr>date = 2, spot_price = 103, future_price = 53\<rparr>] (Some (1 / 2)) (Some 10) SHORT_HEDGE 1
       = Inr (res, self')
   \<and> (\<forall>r \<in> set (data res). total_pnl r = spot_pnl r + future_pnl r)
   \<and> map total_pnl_cumulative (data res) = running_sum (map total_pnl (data res))
   \<and> map unhedged_pnl_cumulative (data res) = running_sum (map unhedged_pnl (data res))
   \<and> map spot_pnl_cumulative (data res) = running_sum (map spot_pnl (data res))
   \<and> map future_pnl_cumulative (data res) = running_sum (map future_pnl (data res))"
proof -
  have "2 \<le> length [\<lparr>date = 0::int, spot_price = 100::real, future_price = 50::real\<rparr>,
        \<lparr>date = 1, spot_price = 105, future_price = 54\<rparr>,
        \<lparr>date = 2, spot_price = 103, future_price = 53\<rparr>]"
    by simp
  from run_backtest_total [OF this, of series_std "\<lparr>backtest_results = None\<rparr>" "1 / 2" 10
      SHORT_HEDGE 1]
  obtain res self' where run:
    "run_backtest series_std \<lparr>backtest_results = None\<rparr>
       [\<lparr>date = 0, spot_price = 100, future_price = 50\<rparr>,
        \<lparr>date = 1, spot_price = 105, future_price = 54\<rparr>,
        \<lparr>date = 2, spot_price = 103, future_price = 53\<rparr>] (Some (1 / 2)) (Some 10) SHORT_HEDGE 1
       = Inr (res, self')"
    by blast
  from run run_backtest_total_and_cumulative [OF run] show ?thesis by blast
qed

text \<open>
  C8. On an aligned series with exactly one row, \<open>run_backtest\<close> passes the check for
  empty input, \<open>dropna\<close> removes the only row, and the computation of the performance
  metrics raises on the empty record set: the call ends with that error, which is not
  the error for empty input. This holds for every hedge ratio and spot quantity, NaN
  included.
\<close>

theorem one_row_backtest_raises:
  "[r] \<noteq> []
   \<and> pd_dropna (pnl_frame [r] q (float_mul q h) d) = []
   \<and> calculate_performance_metrics std [] d q (float_mul q h)
       = Inl (IndexError ''index -1 is out of bounds for axis 0 with size 0'')
   \<and> run_backtest std self [r] h q d cs
       = Inl (IndexError ''index -1 is out of bounds for axis 0 with size 0'')
   \<and> run_backtest std self [r] h q d cs \<noteq> Inl (ValueError ''data is empty, cannot run backtest'')
   \<and> (\<forall>msg. run_backtest std self [r] h q d cs \<noteq> Inl (ValueError msg))"
proof -
  have "pd_dropna (pnl_frame [r] q (float_mul q h) d) = []"
    by (rule dropna_pnl_frame_one_row)
  then show ?thesis
    by (simp add: run_backtest_def metrics_empty Let_def)
qed

text \<open>
  C6. Let \<open>std\<close> be the standard deviation as pandas computes it, NaN on an empty column.
  For every backtest record set on which the standard deviation of the hedged
  (respectively unhedged) daily P&L is 0, the metrics are computed, the reported
  volatility is 0, the reported \<open>sharpe_ratio_hedged\<close> (respectively
  \<open>sharpe_ratio_unhedged\<close>) is exactly 0, and lines 156 to 165 execute no division for
  it. Whatever the mean and the volatility, these lines never divide by 0.
\<close>

theorem sharpe_zero_volatility:
  assumes "std [] = NaN"
  shows "(std (map total_pnl rows) = Fin 0 \<longrightarrow>
      (\<exists>m. calculate_performance_metrics std rows d q fq = Inr m
         \<and> hedged_volatility m = Fin 0
         \<and> sharpe_ratio_hedged m = Fin 0
         \<and> sharpe_ratio (avg_daily_hedged_pnl m) (hedged_volatility m) = (Fin 0, [])))
   \<and> (std (map unhedged_pnl rows) = Fin 0 \<longrightarrow>
      (\<exists>m. calculate_performance_metrics std rows d q fq = Inr m
         \<and> unhedged_volatility m = Fin 0
         \<and> sharpe_ratio_unhedged m = Fin 0
         \<and> sharpe_ratio (avg_daily_unhedged_pnl m) (unhedged_volatility m) = (Fin 0, [])))
   \<and> Fin 0 \<notin> set (snd (sharpe_ratio avg volatility))"
proof (intro conjI impI)
  assume z: "std (map total_pnl rows) = Fin 0"
  with assms have "rows \<noteq> []" by auto
  from metrics_total [OF this, of std d q fq] obtain m where
    "calculate_performance_metrics std rows d q fq = Inr m"
    "hedged_volatility m = std (map total_pnl rows)"
    "sharpe_ratio_hedged m
       = fst (sharpe_ratio (series_mean (map total_pnl rows)) (std (map total_pnl rows)))"
    by blast
  with z show "\<exists>m. calculate_performance_metrics std rows d q fq = Inr m
         \<and> hedged_volatility m = Fin 0
         \<and> sharpe_ratio_hedged m = Fin 0
         \<and> sharpe_ratio (avg_daily_hedged_pnl m) (hedged_volatility m) = (Fin 0, [])"
    by (simp add: sharpe_ratio_def)
next
  assume z: "std (map unhedged_pnl rows) = Fin 0"
  with assms have "rows \<noteq> []" by auto
  from metrics_total [OF this, of std d q fq] obtain m where
    "calculate_performance_metrics std rows d q fq = Inr m"
    "unhedged_volatility m = std (map unhedged_pnl rows)"
    "sharpe_ratio_unhedged m
       = fst (sharpe_ratio (series_mean (map unhedged_pnl rows)) (std (map unhedged_pnl rows)))"
    by blast
  with z show "\<exists>m. calculate_performance_metrics std rows d q fq = Inr m
         \<and> unhedged_volatility m = Fin 0
         \<and> sharpe_ratio_unhedged m = Fin 0
         \<and> sharpe_ratio (avg_daily_unhedged_pnl m) (unhedged_volatility m) = (Fin 0, [])"
    by (simp add: sharpe_ratio_def)
next
  show "Fin 0 \<notin> set (snd (sharpe_ratio avg volatility))"
    by (auto simp: sharpe_ratio_def)
qed

theorem sharpe_zero_volatility_witness:
  "series_std [] = NaN
   \<and> series_std (map total_pnl [flat_row 1, flat_row 2]) = Fin 0
   \<and> series_std (map unhedged_pnl [flat_row 1, flat_row 2]) = Fin 0
   \<and> (\<exists>m. calculate_performance_metrics series_std [flat_row 1, flat_row 2] SHORT_HEDGE
            (Some 2) (Some 1) = Inr m
         \<and> sharpe_ratio_hedged m = Fin 0
         \<and> sharpe_ratio (avg_daily_hedged_pnl m) (hedged_volatility m) = (Fin 0, []))
   \<and> (\<exists>m. calculate_performance_metrics series_std [flat_row 1, flat_row 2] SHORT_HEDGE
            (Some 2) (Some 1) = Inr m
         \<and> sharpe_ratio_unhedged m = Fin 0
         \<and> sharpe_ratio (avg_daily_unhedged_pnl m) (unhedged_volatility m) = (Fin 0, []))"
proof -
  have e: "series_std [] = NaN"
    by (simp add: series_std_def series_var_def)
  have h: "series_std (map total_pnl [flat_row 1, flat_row 2]) = Fin 0"
    by (simp add: series_std_def series_var_def flat_row_def)
  have u: "series_std (map unhedged_pnl [flat_row 1, flat_row 2]) = Fin 0"
    by (simp add: series_std_def series_var_def flat_row_def)
  from e h u sharpe_zero_volatility [of series_std "[flat_row 1, flat_row 2]" SHORT_HEDGE
      "Some 2" "Some 1", OF e]
  show ?thesis by blast
qed

section \<open>Hedge ratio calculator: claims\<close>

lemma lockstep_changes:
  "change_rows (lockstep_series d0 d1 d2 d3 d4 f0) = [(2, 1), (- 1, - (1 / 2)), (4, 2), (- 2, - 1)]"
  by (simp add: change_rows_def lockstep_series_def List.map_filter_simps)

text \<open>
  C5. For the spot series 100, 102, 101, 105, 103 and every futures series whose daily
  changes are half the spot changes (1, -0.5, 2, -1), \<open>calculate_optimal_hedge_ratio\<close>
  returns the minimum-variance ratio 2 with R squared 1, and
  \<open>calculate_hedge_effectiveness\<close> at ratio 2 returns effectiveness 1 with hedged
  variance 0. (Exact arithmetic; rounding of the floats is not modelled.)
\<close>

theorem lockstep_ratio:
  "(\<exists>res self'. calculate_optimal_hedge_ratio self (lockstep_series d0 d1 d2 d3 d4 f0) None
                   = Inr (Fin 2, res, self')
      \<and> optimal_hedge_ratio res = Fin 2 \<and> r_squared res = Fin 1)
   \<and> (\<exists>eff. calculate_hedge_effectiveness (lockstep_series d0 d1 d2 d3 d4 f0) 2 = Inr eff
      \<and> hedge_effectiveness eff = Fin 1 \<and> hedged_variance eff = Fin 0)"
proof -
  have ne: "lockstep_series d0 d1 d2 d3 d4 f0 \<noteq> []" by (simp add: lockstep_series_def)
  have cov1: "np_cov [2, - 1, 4, - 2] [1, - (1 / 2), 2, - 1] = Fin (91 / 24)"
    by (simp add: np_cov_def)
  have cov2: "np_cov [1, - (1 / 2), 2, - 1] [1, - (1 / 2), 2, - 1] = Fin (91 / 48)"
    by (simp add: np_cov_def)
  have hc: "ols_has_constant [1, - (1 / 2), 2, - 1]"
    by (simp add: ols_has_constant_def)
  have par: "ols_params [1, - (1 / 2), 2, - 1] [2, - 1, 4, - 2] = (0, 2)"
    by (simp add: ols_params_def)
  have r2: "ols_rsquared [1, - (1 / 2), 2, - 1] [2, - 1, 4, - 2] = Fin 1"
    by (simp add: ols_rsquared_def ols_params_def np_sub_def)
  have v1: "series_var [2, - 1, 4, - 2] = Fin (91 / 12)"
    by (simp add: series_var_def)
  have v0: "series_var [0, 0, 0, 0] = Fin 0"
    by (simp add: series_var_def)
  show ?thesis
    by (simp add: calculate_optimal_hedge_ratio_def calculate_hedge_effectiveness_def ne
        lockstep_changes cov1 cov2 hc par r2 v1 v0 np_sub_def Let_def)
qed

lemma overflow_threshold_pos: "0 < overflow_threshold"
proof -
  have "(2::real) ^ 970 < 2 ^ 1024"
    by (rule power_strict_increasing) simp_all
  then show ?thesis by (simp add: overflow_threshold_def)
qed

lemma to_double_zero: "to_double (Fin 0) = Fin 0"
  using overflow_threshold_pos by (simp add: to_double_def)

lemma to_double_special: "to_double NaN = NaN" "to_double PInf = PInf" "to_double NInf = NInf"
  by (simp_all add: to_double_def)

lemma round_half_even_zero: "round_half_even 0 = 0"
  by (simp add: round_half_even_def)

text \<open>
  With spot quantity 0 the outcome depends on the kind of the other numbers. A numpy
  ratio makes the contract count a numpy division: with contract size 0 it is NaN
  without an exception, and \<open>round\<close> raises ValueError. A numpy contract size makes the
  last division numpy's: the call returns a result whose actual hedge ratio is NaN.
\<close>

lemma zero_spot_quantity_numpy_ratio:
  "calculate_hedge_quantity (PyFloat (Fin 0)) (NpFloat64 (Fin (3 / 2))) (PyFloat (Fin 0))
     = Inl (ValueError ''cannot convert float NaN to integer'')"
  by (simp add: calculate_hedge_quantity_def py_mul_def py_truediv_def py_round_def
      to_double_zero to_double_special Let_def)

lemma zero_spot_quantity_numpy_contract_size:
  "\<exists>res. calculate_hedge_quantity (PyFloat (Fin 0)) (PyFloat (Fin (3 / 2))) (NpFloat64 (Fin 10))
            = Inr res
         \<and> rounded_contract_count res = 0 \<and> actual_hedge_ratio res = NpFloat64 NaN"
  by (simp add: calculate_hedge_quantity_def py_mul_def py_truediv_def py_round_def py_int_def
      to_double_zero to_double_special round_half_even_zero Let_def)

text \<open>
  C10, as stated, fails: with spot quantity 0 and a NaN hedge ratio the futures quantity
  and the contract count are NaN, and \<open>round\<close> raises ValueError before the actual hedge
  ratio is computed.
\<close>

theorem zero_spot_quantity_nan_ratio:
  "calculate_hedge_quantity (PyFloat (Fin 0)) (PyFloat NaN) (PyFloat (Fin 1))
     = Inl (ValueError ''cannot convert float NaN to integer'')
   \<and> calculate_hedge_quantity (PyFloat (Fin 0)) (PyFloat NaN) (PyFloat (Fin 1))
       \<noteq> Inl ZeroDivisionError"
  by (simp add: calculate_hedge_quantity_def py_mul_def py_truediv_def py_round_def
      to_double_special Let_def)

text \<open>
  C10, amended. Let the spot quantity be the Python number 0, the hedge ratio finite, a
  Python float or a numpy float64, and the contract size a Python float other than NaN,
  and other than 0 when the ratio is a numpy float64. Then \<open>calculate_hedge_quantity\<close>
  raises ZeroDivisionError: from the contract count when the contract size is 0, and else
  from the actual hedge ratio, after the contract count 0 was computed and rounded.
\<close>

theorem zero_spot_quantity_raises:
  assumes "np_isfinite (float_value h)"
    and "c \<noteq> NaN"
    and "is_numpy h \<longrightarrow> c \<noteq> Fin 0"
  shows "calculate_hedge_quantity (PyFloat (Fin 0)) h (PyFloat c) = Inl ZeroDivisionError
    \<and> (if c = Fin 0
        then py_truediv (py_mul (PyFloat (Fin 0)) h) (PyFloat c) = Inl ZeroDivisionError
        else (\<exists>count. py_truediv (py_mul (PyFloat (Fin 0)) h) (PyFloat c) = Inr count
                \<and> float_value count = Fin 0
                \<and> py_round count = Inr 0
                \<and> py_truediv (py_mul (py_int 0) (PyFloat c)) (PyFloat (Fin 0))
                    = Inl ZeroDivisionError))"
proof -
  from assms(1) obtain a where a: "float_value h = Fin a"
    by (cases "float_value h") (simp_all add: np_isfinite_def)
  have fq: "float_value (py_mul (PyFloat (Fin 0)) h) = Fin 0"
    by (simp add: py_mul_def a to_double_zero Let_def)
  have kind: "is_numpy (py_mul (PyFloat (Fin 0)) h) = is_numpy h"
    by (simp add: py_mul_def Let_def)
  have last: "py_truediv (py_mul (py_int 0) (PyFloat c)) (PyFloat (Fin 0)) = Inl ZeroDivisionError"
    by (simp add: py_truediv_def py_mul_def py_int_def Let_def)
  show ?thesis
  proof (cases "c = Fin 0")
    case True
    with assms(3) have "\<not> is_numpy h" by auto
    with True have "py_truediv (py_mul (PyFloat (Fin 0)) h) (PyFloat c) = Inl ZeroDivisionError"
      by (simp add: py_truediv_def kind)
    with True show ?thesis by (simp add: calculate_hedge_quantity_def Let_def)
  next
    case False
    with assms(2) have q: "to_double (np_div (Fin 0) c) = Fin 0"
      by (cases c) (simp_all add: to_double_zero)
    define count where
      "count = (if is_numpy h then NpFloat64 (Fin 0) else PyFloat (Fin 0))"
    have cnt: "py_truediv (py_mul (PyFloat (Fin 0)) h) (PyFloat c) = Inr count"
      using False by (simp add: py_truediv_def kind fq q count_def)
    have val: "float_value count = Fin 0" by (simp add: count_def)
    have rnd: "py_round count = Inr 0"
      by (simp add: py_round_def val round_half_even_zero)
    have "calculate_hedge_quantity (PyFloat (Fin 0)) h (PyFloat c) = Inl ZeroDivisionError"
      by (simp add: calculate_hedge_quantity_def cnt rnd last Let_def)
    with False cnt val rnd last show ?thesis by auto
  qed
qed

theorem zero_spot_quantity_raises_witness:
  "np_isfinite (float_value (NpFloat64 (Fin (3 / 2)))) \<and> Fin 10 \<noteq> NaN
   \<and> is_numpy (NpFloat64 (Fin (3 / 2))) \<and> Fin 10 \<noteq> Fin 0
   \<and> calculate_hedge_quantity (PyFloat (Fin 0)) (NpFloat64 (Fin (3 / 2))) (PyFloat (Fin 10))
       = Inl ZeroDivisionError
   \<and> (\<exists>count. py_truediv (py_mul (PyFloat (Fin 0)) (NpFloat64 (Fin (3 / 2)))) (PyFloat (Fin 10))
                 = Inr count
        \<and> float_value count = Fin 0 \<and> py_round count = Inr 0)"
  using zero_spot_quantity_raises [of "NpFloat64 (Fin (3 / 2))" "Fin 10"]
  by (auto simp: np_isfinite_def)

section \<open>Data alignment: claims\<close>

lemma filter_key_unique:
  "distinct (map fst R) \<Longrightarrow> (d, vs) \<in> set R
     \<Longrightarrow> filter (\<lambda>(d', ws). d' = d) (map (\<lambda>(d, vs). (d, g vs)) R) = [(d, g vs)]"
proof (induction R)
  case Nil
  then show ?case by simp
next
  case (Cons r R)
  obtain d0 v0 where r: "r = (d0, v0)" by (cases r)
  show ?case
  proof (cases "d0 = d")
    case True
    with Cons.prems r have "v0 = vs" by (auto simp: rev_image_eqI)
    moreover from Cons.prems r True
    have "filter (\<lambda>(d', ws). d' = d) (map (\<lambda>(d, vs). (d, g vs)) R) = []"
      by (auto simp: filter_empty_conv rev_image_eqI)
    ultimately show ?thesis using r True by simp
  next
    case False
    with Cons r show ?thesis by auto
  qed
qed

lemma merge_rows_same_keys:
  assumes "distinct (map fst R)"
  shows "concat (map (\<lambda>(d, vs). map (\<lambda>(d', ws). (d, vs @ ws))
                      (filter (\<lambda>(d', ws). d' = d) (map (\<lambda>(d, vs). (d, g vs)) R)))
                 (map (\<lambda>(d, vs). (d, f vs)) R))
         = map (\<lambda>(d, vs). (d, f vs @ g vs)) R"
proof -
  have part: "set S \<subseteq> set R \<Longrightarrow>
     concat (map (\<lambda>(d, vs). map (\<lambda>(d', ws). (d, vs @ ws))
                      (filter (\<lambda>(d', ws). d' = d) (map (\<lambda>(d, vs). (d, g vs)) R)))
                 (map (\<lambda>(d, vs). (d, f vs)) S))
         = map (\<lambda>(d, vs). (d, f vs @ g vs)) S" for S
  proof (induction S)
    case Nil
    then show ?case by simp
  next
    case (Cons s S)
    obtain d vs where s: "s = (d, vs)" by (cases s)
    with Cons.prems have "(d, vs) \<in> set R" by simp
    from filter_key_unique [OF assms this, of g] Cons s show ?case by simp
  qed
  then show ?thesis by simp
qed

lemma merge_self_rows:
  assumes "distinct (map fst R)"
  shows "concat (map (\<lambda>(d, vs). map (\<lambda>(d', ws). (d, vs @ ws))
                      (filter (\<lambda>(d', ws). d' = d) R)) R)
         = map (\<lambda>(d, vs). (d, vs @ vs)) R"
  using merge_rows_same_keys [OF assms, of "\<lambda>vs. vs" "\<lambda>vs. vs"]
  by (simp add: case_prod_unfold)

lemma valid_aligned_facts:
  assumes "valid_aligned A"
  shows "distinct (map fst (df_rows A))" and "sorted (map fst (df_rows A))"
    and "df_rows A \<noteq> []" and "df_columns A = [''spot_price'', ''future_price'']"
    and "map (\<lambda>(d, vs). (d, [vs ! 0] @ [vs ! 1])) (df_rows A) = df_rows A"
proof -
  from assms have s: "sorted_wrt (<) (map fst (df_rows A))" by (simp add: valid_aligned_def)
  then show "distinct (map fst (df_rows A))" by (simp add: strict_sorted_iff)
  from s show "sorted (map fst (df_rows A))" by (rule strict_sorted_imp_sorted)
  from assms show "df_rows A \<noteq> []" "df_columns A = [''spot_price'', ''future_price'']"
    by (simp_all add: valid_aligned_def)
  from assms have two: "\<forall>x \<in> set (df_rows A). length (snd x) = 2"
    by (auto simp: valid_aligned_def list_all_iff)
  have pair: "[vs ! 0, vs ! 1] = vs" if "length vs = 2" for vs :: "real list"
  proof -
    from that obtain a b where "vs = [a, b]"
      by (cases vs; cases "tl vs") auto
    then show ?thesis by simp
  qed
  with two show "map (\<lambda>(d, vs). (d, [vs ! 0] @ [vs ! 1])) (df_rows A) = df_rows A"
    by (simp add: map_idI case_prod_unfold)
qed

text \<open>
  C7, as stated, fails: aligning an aligned series with itself joins two frames that both
  have the columns \<open>spot_price\<close> and \<open>future_price\<close>, so the result has four suffixed
  price columns and is not the series.
\<close>

theorem align_self_counterexample:
  "valid_aligned one_day_frame \<and> align_data one_day_frame one_day_frame \<noteq> Inr one_day_frame"
  by (simp add: valid_aligned_def one_day_frame_def align_data_def pd_merge_inner_def)

text \<open>
  C7, amended. For every valid aligned series \<open>A\<close>, aligning the spot series of \<open>A\<close> with
  the futures series of \<open>A\<close> returns \<open>A\<close>; aligning \<open>A\<close> with itself returns the dates of \<open>A\<close>
  in the same order, each with the prices of \<open>A\<close> twice, under the columns
  \<open>spot_price_x\<close>, \<open>future_price_x\<close>, \<open>spot_price_y\<close>, \<open>future_price_y\<close>.
\<close>

theorem align_spot_future_roundtrip:
  assumes "valid_aligned A"
  shows "align_data (spot_series A) (future_series A) = Inr A
    \<and> align_data A A =
        Inr \<lparr> df_columns =
                [''spot_price_x'', ''future_price_x'', ''spot_price_y'', ''future_price_y''],
              df_rows = map (\<lambda>(d, vs). (d, vs @ vs)) (df_rows A) \<rparr>"
proof -
  note f = valid_aligned_facts [OF assms]
  have k2: "map fst (map (\<lambda>(d, vs). (d, vs @ vs)) (df_rows A)) = map fst (df_rows A)"
    by (simp add: case_prod_unfold o_def)
  have m1: "pd_merge_inner (spot_series A) (future_series A) = A"
    using merge_rows_same_keys [OF f(1), of "\<lambda>vs. [vs ! 1]" "\<lambda>vs. [vs ! 0]"] f(4,5)
    by (simp add: pd_merge_inner_def spot_series_def future_series_def)
  have m2: "pd_merge_inner A A =
      \<lparr> df_columns =
          [''spot_price_x'', ''future_price_x'', ''spot_price_y'', ''future_price_y''],
        df_rows = map (\<lambda>(d, vs). (d, vs @ vs)) (df_rows A) \<rparr>"
    using merge_self_rows [OF f(1)] f(4)
    by (simp add: pd_merge_inner_def)
  have s1: "sort_key fst (df_rows A) = df_rows A"
    by (rule sort_key_id_if_sorted [OF f(2)])
  have s2: "sort_key fst (map (\<lambda>(d, vs). (d, vs @ vs)) (df_rows A))
      = map (\<lambda>(d, vs). (d, vs @ vs)) (df_rows A)"
    by (rule sort_key_id_if_sorted) (simp only: k2 f(2))
  show ?thesis
    using f(3) by (simp add: align_data_def m1 m2 s1 s2)
qed

theorem align_spot_future_roundtrip_witness:
  "valid_aligned one_day_frame
   \<and> align_data (spot_series one_day_frame) (future_series one_day_frame) = Inr one_day_frame
   \<and> align_data one_day_frame one_day_frame =
        Inr \<lparr> df_columns =
                [''spot_price_x'', ''future_price_x'', ''spot_price_y'', ''future_price_y''],
              df_rows = [(1, [100, 99, 100, 99])] \<rparr>"
proof -
  have v: "valid_aligned one_day_frame"
    by (simp add: valid_aligned_def one_day_frame_def)
  from align_spot_future_roundtrip [OF v] v show ?thesis
    by (simp add: one_day_frame_def)
qed

section \<open>Stress test analyzer: the detector, the worked series, totality\<close>

lemma create_summary_raises: "\<exists>e. create_stress_period_summary pd s t = Inl e"
  by (simp add: create_stress_period_summary_def classify_stress_def
      price_change_threshold_in_summary_scope_def split: sum.splits)

lemma close_period_keeps:
  assumes "close_period frame m ps pe periods = Inr periods'"
  shows "periods' = periods"
proof (cases ps)
  case None
  with assms show ?thesis by (simp add: close_period_def)
next
  case (Some s)
  from create_summary_raises obtain e
    where "create_stress_period_summary (pd_loc frame s pe) s pe = Inl e"
    by blast
  with assms Some show ?thesis
    by (simp add: close_period_def Let_def split: if_splits)
qed

lemma scan_rows_keeps:
  "scan_rows frame m rs (i, s, periods) = Inr (i', s', periods') \<Longrightarrow> periods' = periods"
proof (induction rs arbitrary: i s periods)
  case Nil
  then show ?case by simp
next
  case (Cons r rs)
  then show ?case
    by (auto split: if_splits sum.splits dest: close_period_keeps)
qed

lemma identify_returns_no_period:
  "identify_stress_periods self rows t m = Inr (periods, self') \<Longrightarrow> periods = []"
  by (auto simp: identify_stress_periods_def Let_def
      split: if_splits sum.splits prod.splits dest!: scan_rows_keeps close_period_keeps)

lemma six_days_rows:
  "day_rows six_days 1 1 SHORT_HEDGE =
    [\<lparr>date = 1, spot_price = 101, future_price = 50, label = 1, spot_price_change = 1,
      future_price_change = 0, spot_pnl = 1, future_pnl = 0, total_pnl = 1, unhedged_pnl = 1,
      total_pnl_cumulative = 1, unhedged_pnl_cumulative = 1, spot_pnl_cumulative = 1,
      future_pnl_cumulative = 0\<rparr>,
     \<lparr>date = 2, spot_price = 120, future_price = 60, label = 2, spot_price_change = 19,
      future_price_change = 10, spot_pnl = 19, future_pnl = - 10, total_pnl = 9, unhedged_pnl = 19,
      total_pnl_cumulative = 10, unhedged_pnl_cumulative = 20, spot_pnl_cumulative = 20,
      future_pnl_cumulative = - 10\<rparr>,
     \<lparr>date = 3, spot_price = 140, future_price = 70, label = 3, spot_price_change = 20,
      future_price_change = 10, spot_pnl = 20, future_pnl = - 10, total_pnl = 10, unhedged_pnl = 20,
      total_pnl_cumulative = 20, unhedged_pnl_cumulative = 40, spot_pnl_cumulative = 40,
      future_pnl_cumulative = - 20\<rparr>,
     \<lparr>date = 4, spot_price = 160, future_price = 80, label = 4, spot_price_change = 20,
      future_price_change = 10, spot_pnl = 20, future_pnl = - 10, total_pnl = 10, unhedged_pnl = 20,
      total_pnl_cumulative = 30, unhedged_pnl_cumulative = 60, spot_pnl_cumulative = 60,
      future_pnl_cumulative = - 30\<rparr>,
     \<lparr>date = 5, spot_price = 161, future_price = 80, label = 5, spot_price_change = 1,
      future_price_change = 0, spot_pnl = 1, future_pnl = 0, total_pnl = 1, unhedged_pnl = 1,
      total_pnl_cumulative = 31, unhedged_pnl_cumulative = 61, spot_pnl_cumulative = 61,
      future_pnl_cumulative = - 30\<rparr>]"
  by (simp add: day_rows_def six_days_def deltas_def running_sum_def dir_spot_def dir_future_def
      upt_conv_Cons Let_def)

lemma six_days_backtest:
  "\<exists>res self'. run_backtest std \<lparr>backtest_results = None\<rparr> six_days (Some 1) (Some 1) SHORT_HEDGE 1
                  = Inr (res, self')
     \<and> data res = day_rows six_days 1 1 SHORT_HEDGE"
proof -
  have "2 \<le> length six_days" by (simp add: six_days_def)
  from run_backtest_total [OF this, of std "\<lparr>backtest_results = None\<rparr>" 1 1 SHORT_HEDGE 1]
  obtain res self' where
    r: "run_backtest std \<lparr>backtest_results = None\<rparr> six_days (Some 1) (Some 1) SHORT_HEDGE 1
          = Inr (res, self')"
    by blast
  from run_backtest_data [OF r] r show ?thesis by auto
qed

lemma period_performance_total:
  assumes "rows \<noteq> []"
  shows "\<exists>p. calculate_period_performance std rows = Inr (Some p)
    \<and> pp_days p = length rows
    \<and> pp_total_hedged_pnl p = series_sum (map total_pnl rows)
    \<and> pp_total_unhedged_pnl p = series_sum (map unhedged_pnl rows)"
  using assms
  by (simp add: calculate_period_performance_def np_percentile_def Let_def)

lemma test_specific_periods_total:
  assumes "\<forall>p \<in> set ps. period_rows rows p \<noteq> []"
  shows "\<exists>rs. test_specific_periods std rows ps = Inr rs \<and> length rs = length ps
    \<and> (\<forall>r \<in> set rs. performance r \<noteq> None)"
  using assms
proof (induction ps)
  case Nil
  then show ?case by simp
next
  case (Cons p ps)
  then have "period_rows rows p \<noteq> []" by simp
  from period_performance_total [OF this] obtain pp
    where pp: "calculate_period_performance std (period_rows rows p) = Inr (Some pp)" by blast
  from Cons obtain rs where rs: "test_specific_periods std rows ps = Inr rs"
    "length rs = length ps" "\<forall>r \<in> set rs. performance r \<noteq> None"
    by auto
  show ?case using rs by (auto simp: pp)
qed

lemma those_Some:
  "\<forall>x \<in> set xs. x \<noteq> None \<Longrightarrow> \<exists>ys. those xs = Some ys"
  by (induction xs) auto

lemma stress_summary_total:
  assumes "rs \<noteq> []" "\<forall>r \<in> set rs. performance r \<noteq> None" "performance normal \<noteq> None"
  shows "\<exists>s. calculate_stress_summary rs normal = Inr s"
proof -
  from assms(2) have "\<forall>x \<in> set (map performance rs). x \<noteq> None" by simp
  from those_Some [OF this] obtain ps where "those (map performance rs) = Some ps" by blast
  moreover from assms(3) obtain np where "performance normal = Some np" by auto
  ultimately show ?thesis
    using assms(1) by (simp add: calculate_stress_summary_def Let_def)
qed

lemma normal_data_nothing_stored: "normal_data [] rows = rows"
  by (simp add: normal_data_def)

lemma normal_analysis_total:
  assumes "rows \<noteq> []" "stress_periods self = []"
  shows "\<exists>n. get_normal_period_analysis std self rows = Inr n \<and> performance n \<noteq> None"
  using period_performance_total [OF assms(1), of std] assms(2)
  by (auto simp: get_normal_period_analysis_def normal_data_nothing_stored)

lemma run_stress_test_explicit_total:
  assumes "stress_periods self = []" "ps \<noteq> []" "data bt \<noteq> []"
    "\<forall>p \<in> set ps. period_rows (data bt) p \<noteq> []"
  shows "\<exists>res self'. run_stress_test std self (Some bt) (Some ps) None = Inr (res, self')"
proof -
  from test_specific_periods_total [OF assms(4), of std] obtain rs
    where rs: "test_specific_periods std (data bt) ps = Inr rs" "length rs = length ps"
      "\<forall>r \<in> set rs. performance r \<noteq> None" by blast
  from normal_analysis_total [OF assms(3) assms(1), of std] obtain n
    where n: "get_normal_period_analysis std self (data bt) = Inr n" "performance n \<noteq> None"
    by blast
  from rs(2) assms(2) have "rs \<noteq> []" by auto
  from stress_summary_total [OF this rs(3) n(2)] obtain s
    where s: "calculate_stress_summary rs n = Inr s" by blast
  show ?thesis
    using assms(2) by (simp add: run_stress_test_def Let_def rs(1) n(1) s)
qed

lemma normal_analysis_stored_only:
  "stress_periods a = stress_periods b
     \<Longrightarrow> get_normal_period_analysis std a rows = get_normal_period_analysis std b rows"
  by (simp add: get_normal_period_analysis_def)

lemma stored_or_detected_stores_nothing:
  assumes "stress_periods self = []" and "stored_or_detected self rows = Inr self1"
  shows "stress_periods self1 = []"
proof -
  from assms obtain found where
    i: "identify_stress_periods self (labelled_prices rows) 5 3 = Inr (found, self1)"
    by (auto simp: stored_or_detected_def split: sum.splits)
  from identify_returns_no_period [OF i] have "found = []" .
  with i show ?thesis
    by (auto simp: identify_stress_periods_def Let_def split: if_splits sum.splits prod.splits)
qed

lemma run_stress_test_normal:
  assumes "stress_periods self = []"
    and "run_stress_test std self (Some bt) periods_arg custom = Inr (res, self')"
  shows "get_normal_period_analysis std self (data bt) = Inr (normal_period_comparison res)"
    and "stress_periods self' = []"
proof -
  from assms(2) obtain rs kind self2 n s where
    n: "get_normal_period_analysis std self2 (data bt) = Inr n"
    and res: "res = \<lparr> tested_periods = rs, test_type = kind,
                      normal_period_comparison = n, summary = s \<rparr>"
    and self': "self' = self2\<lparr> stress_results := Some res \<rparr>"
    and self2: "self2 = self \<or> stored_or_detected self (data bt) = Inr self2"
    by (auto simp: run_stress_test_def Let_def
        split: option.splits sum.splits if_splits prod.splits)
  from self2 assms(1) have e: "stress_periods self2 = []"
    using stored_or_detected_stores_nothing by auto
  with assms(1) have "get_normal_period_analysis std self (data bt)
      = get_normal_period_analysis std self2 (data bt)"
    by (intro normal_analysis_stored_only) simp
  with n res show "get_normal_period_analysis std self (data bt) = Inr (normal_period_comparison res)"
    by simp
  from self' e show "stress_periods self' = []" by simp
qed

lemma rally_rows:
  "map date (period_rows (day_rows six_days 1 1 SHORT_HEDGE) rally_period) = [2, 3, 4]"
  "map unhedged_pnl (covered_rows (day_rows six_days 1 1 SHORT_HEDGE) rally_period) = [19, 20, 20]"
  "map total_pnl (covered_rows (day_rows six_days 1 1 SHORT_HEDGE) rally_period) = [9, 10, 10]"
  by (simp_all add: six_days_rows period_rows_def covered_rows_def rally_period_def
      iloc_slice_def py_slice_index_def)

section \<open>Stress test analyzer: the rows of a period\<close>










section \<open>Stress test analyzer: claims\<close>

text \<open>
  C3. On \<open>five_day_run\<close>, a series with calm days around one run of five extreme days
  (rows 2 to 6 at threshold 5), and with \<open>min_consecutive_days = 3\<close>, the detector reaches
  the calm day after the run, finds the run long enough and builds its summary, where the
  classification raises NameError: \<open>identify_stress_periods\<close> returns no period list.
\<close>

theorem five_day_run_raises:
  "map (\<lambda>r. (sr_label r, is_extreme r)) (stress_frame (range_index five_day_run) 5)
     = [(0, False), (1, False), (2, True), (3, True), (4, True), (5, True), (6, True),
        (7, False), (8, False)]
   \<and> identify_stress_periods self (range_index five_day_run) 5 3
       = Inl (NameError ''price_change_threshold'')"
proof -
  have flags: "map (\<lambda>r. (sr_label r, is_extreme r)) (stress_frame (range_index five_day_run) 5)
     = [(0, False), (1, False), (2, True), (3, True), (4, True), (5, True), (6, True),
        (7, False), (8, False)]"
    by (simp add: stress_frame_def range_index_def five_day_run_def upt_conv_Cons np_sub_def)
  have raised: "identify_stress_periods self (range_index five_day_run) 5 3
       = Inl (NameError ''price_change_threshold'')"
    by (simp add: identify_stress_periods_def stress_frame_def range_index_def five_day_run_def
        upt_conv_Cons np_sub_def close_period_def create_stress_period_summary_def
        period_summary_of_def pd_loc_def strftime_def date_min_def date_max_def
        classify_stress_def price_change_threshold_in_summary_scope_def Let_def)
  from flags raised show ?thesis by (rule conjI)
qed



text \<open>
  C9. For every analyzer whose stored list of stress periods is empty, a call of
  \<open>run_stress_test\<close> with an explicit list of periods that returns a result has computed
  the normal-period comparison over the whole record set: no row of the passed periods
  was removed, since the analysis reads the stored list, which is empty before and after
  the call.
\<close>

theorem explicit_periods_not_removed:
  assumes "stress_periods self = []"
    and "run_stress_test std self (Some bt) (Some periods) custom = Inr (res, self')"
  shows "normal_data (stress_periods self) (data bt) = data bt
     \<and> get_normal_period_analysis std self (data bt) = Inr (normal_period_comparison res)
     \<and> period_info (normal_period_comparison res) = NormalPeriod (length (data bt))
     \<and> calculate_period_performance std (data bt) = Inr (performance (normal_period_comparison res))
     \<and> stress_periods self' = []"
proof -
  have nd: "normal_data (stress_periods self) (data bt) = data bt"
    by (simp add: assms(1) normal_data_nothing_stored)
  from run_stress_test_normal [OF assms]
  have g: "get_normal_period_analysis std self (data bt) = Inr (normal_period_comparison res)"
    and s': "stress_periods self' = []"
    by simp_all
  have "period_info (normal_period_comparison res) = NormalPeriod (length (data bt))
    \<and> calculate_period_performance std (data bt) = Inr (performance (normal_period_comparison res))"
  proof (cases "calculate_period_performance std (data bt)")
    case (Inl e)
    with g nd show ?thesis by (simp add: get_normal_period_analysis_def)
  next
    case (Inr perf)
    with g nd have "\<lparr>performance = perf, period_info = NormalPeriod (length (data bt))\<rparr>
        = normal_period_comparison res"
      by (simp add: get_normal_period_analysis_def)
    then have "normal_period_comparison res
        = \<lparr>performance = perf, period_info = NormalPeriod (length (data bt))\<rparr>"
      by (rule sym)
    with Inr show ?thesis by simp
  qed
  with nd g s' show ?thesis by simp
qed

theorem explicit_periods_not_removed_witness:
  "\<exists>bt engine'.
     run_backtest series_std \<lparr>backtest_results = None\<rparr> six_days (Some 1) (Some 1) SHORT_HEDGE 1
       = Inr (bt, engine')
   \<and> stress_periods \<lparr>stress_periods = [], stress_results = None\<rparr> = []
   \<and> [rally_period] \<noteq> []
   \<and> (\<exists>res self'.
        run_stress_test series_std \<lparr>stress_periods = [], stress_results = None\<rparr> (Some bt)
          (Some [rally_period]) None = Inr (res, self')
      \<and> period_info (normal_period_comparison res) = NormalPeriod 5
      \<and> calculate_period_performance series_std (data bt)
          = Inr (performance (normal_period_comparison res)))"
proof -
  from six_days_backtest [of series_std] obtain bt engine' where
    run: "run_backtest series_std \<lparr>backtest_results = None\<rparr> six_days (Some 1) (Some 1) SHORT_HEDGE 1
            = Inr (bt, engine')"
    and dat: "data bt = day_rows six_days 1 1 SHORT_HEDGE"
    by blast
  have stored: "stress_periods \<lparr>stress_periods = [], stress_results = None\<rparr> = []" by simp
  have given: "[rally_period] \<noteq> []" by simp
  have rows: "data bt \<noteq> []" by (simp add: dat six_days_rows)
  have slices: "\<forall>p \<in> set [rally_period]. period_rows (data bt) p \<noteq> []"
    using rally_rows(1) by (auto simp: dat)
  from run_stress_test_explicit_total [OF stored given rows slices, of series_std]
  obtain res self' where
    st: "run_stress_test series_std \<lparr>stress_periods = [], stress_results = None\<rparr> (Some bt)
          (Some [rally_period]) None = Inr (res, self')"
    by blast
  have len: "length (data bt) = 5" by (simp add: dat six_days_rows)
  from explicit_periods_not_removed [OF stored st] len
  have "period_info (normal_period_comparison res) = NormalPeriod 5
      \<and> calculate_period_performance series_std (data bt)
          = Inr (performance (normal_period_comparison res))"
    by simp
  with run stored given st show ?thesis by blast
qed

end
